theory Spec2Isabelle
  imports Complex_Main "HOL-Library.Log_Nat"
begin

section \<open>Strings and numbers of the JavaScript runtime\<close>

text \<open>
  A JavaScript string is modelled as a \<open>string\<close>: one \<open>char\<close> per UTF-16 code unit,
  for code units below 256.  Numbers that the program reads with \<open>parseInt\<close> are
  modelled as mathematical integers and \<open>NaN\<close> as \<open>None\<close>; rounding to binary64 is
  monotone and every constant the program compares with is small, so each comparison
  of the source has the same outcome on the exact integer.  Numbers that the program
  reads with \<open>parseFloat\<close> are the binary64 values the runtime computes, as
  rationals.
\<close>

definition isWhiteSpace :: "char \<Rightarrow> bool" where
  "isWhiteSpace c = (of_char c \<in> {9, 10, 11, 12, 13, 32, 160 :: nat})"

definition trim :: "string \<Rightarrow> string" where
  "trim s = rev (dropWhile isWhiteSpace (rev (dropWhile isWhiteSpace s)))"

definition isDigit :: "char \<Rightarrow> bool" where
  "isDigit c = (48 \<le> (of_char c :: nat) \<and> (of_char c :: nat) \<le> 57)"

text \<open>The value of a character as a digit of \<open>parseInt\<close>: \<open>0-9\<close>, \<open>a-z\<close>, \<open>A-Z\<close>.\<close>

definition digitValue :: "char \<Rightarrow> nat option" where
  "digitValue c =
     (let n = (of_char c :: nat) in
      if 48 \<le> n \<and> n \<le> 57 then Some (n - 48)
      else if 97 \<le> n \<and> n \<le> 122 then Some (n - 87)
      else if 65 \<le> n \<and> n \<le> 90 then Some (n - 55)
      else None)"

definition isRadixDigit :: "nat \<Rightarrow> char \<Rightarrow> bool" where
  "isRadixDigit r c = (case digitValue c of None \<Rightarrow> False | Some v \<Rightarrow> v < r)"

definition radixValue :: "nat \<Rightarrow> string \<Rightarrow> nat" where
  "radixValue r z = foldl (\<lambda>a c. a * r + (case digitValue c of None \<Rightarrow> 0 | Some v \<Rightarrow> v)) 0 z"

text \<open>
  \<open>parseInt(s)\<close> with no radix argument: leading white space is skipped, a sign is
  read, a \<open>0x\<close> or \<open>0X\<close> prefix selects radix 16, the longest prefix of digits is
  the numeral, and the result is \<open>NaN\<close> when that prefix is empty.
\<close>

definition parseInt :: "string \<Rightarrow> int option" where
  "parseInt s =
     (let s1 = dropWhile isWhiteSpace s;
          neg = (take 1 s1 = ''-'');
          s2 = (if take 1 s1 = ''-'' \<or> take 1 s1 = ''+'' then drop 1 s1 else s1);
          hex = (take 2 s2 = ''0x'' \<or> take 2 s2 = ''0X'');
          r = (if hex then 16 else 10);
          s3 = (if hex then drop 2 s2 else s2);
          z = takeWhile (isRadixDigit r) s3
      in if z = [] then None
         else Some ((if neg then - 1 else 1) * int (radixValue r z)))"

text \<open>Relational comparison of a possibly undefined field with a number:
  \<open>undefined < n\<close> and \<open>undefined > n\<close> are both false.\<close>

definition js_lt :: "int option \<Rightarrow> int \<Rightarrow> bool" where
  "js_lt x n = (case x of None \<Rightarrow> False | Some v \<Rightarrow> v < n)"

definition js_gt :: "int option \<Rightarrow> int \<Rightarrow> bool" where
  "js_gt x n = (case x of None \<Rightarrow> False | Some v \<Rightarrow> v > n)"

section \<open>Health score (index.js, calculateHealthScore and getHealthRecommendations)\<close>

text \<open>The \<open>data\<close> object of the assessment flow; a field that has not been
  assigned yet is \<open>None\<close>.\<close>

record assessment_data =
  sleepHours :: "int option"
  waterIntake :: "int option"
  exerciseDays :: "int option"
  stressLevel :: "int option"
  dietQuality :: "int option"
  smokes :: "string option"
  alcoholDrinks :: "int option"

definition calculateHealthScore :: "assessment_data \<Rightarrow> int" where
  "calculateHealthScore d =
     (let score = 100;
          score = (if js_lt (sleepHours d) 7 then score - 10 else score);
          score = (if js_lt (waterIntake d) 8 then score - 5 else score);
          score = (if js_lt (exerciseDays d) 3 then score - 15 else score);
          score = (if js_gt (stressLevel d) 7 then score - 10 else score);
          score = (if js_lt (dietQuality d) 5 then score - 10 else score);
          score = (if smokes d = Some ''yes'' then score - 20 else score);
          score = (if js_gt (alcoholDrinks d) 7 then score - 5 else score)
      in max 0 score)"

definition getHealthRecommendations :: "int \<Rightarrow> string" where
  "getHealthRecommendations score =
     (if score \<ge> 80 then ''Excellent health! Maintain your habits.''
      else if score \<ge> 60 then ''Good health, but could improve in some areas.''
      else ''Consider lifestyle changes. Focus on sleep, diet and exercise.'')"

section \<open>Dates (the runtime's \<open>Date\<close> object)\<close>

text \<open>
  A \<open>Date\<close> holds a time value: milliseconds since the epoch in UTC, or \<open>NaN\<close>
  (an invalid date), here \<open>None\<close>.  The day and calendar functions follow the
  definitions of the ECMAScript specification.  Local time is UTC plus a fixed offset
  \<open>tza\<close> in milliseconds; daylight saving changes are not modelled.  The methods
  \<open>setDate\<close> mutate the object in the source; here they return the new time value
  and the caller threads it.
\<close>

type_synonym date = "int option"

definition msPerDay :: int where
  "msPerDay = 86400000"

definition Day :: "int \<Rightarrow> int" where
  "Day t = t div msPerDay"

definition TimeWithinDay :: "int \<Rightarrow> int" where
  "TimeWithinDay t = t mod msPerDay"

definition DaysInYear :: "int \<Rightarrow> int" where
  "DaysInYear y =
     (if y mod 4 \<noteq> 0 then 365 else if y mod 100 \<noteq> 0 then 366
      else if y mod 400 \<noteq> 0 then 365 else 366)"

definition DayFromYear :: "int \<Rightarrow> int" where
  "DayFromYear y =
     365 * (y - 1970) + (y - 1969) div 4 - (y - 1901) div 100 + (y - 1601) div 400"

text \<open>The largest year whose first day is not after the day of \<open>t\<close>: an estimate
  from the mean length of a year, corrected by one year either way.\<close>

definition YearFromTime :: "int \<Rightarrow> int" where
  "YearFromTime t =
     (let d = Day t; y0 = 1970 + (d * 400) div 146097 in
      if d < DayFromYear y0 then y0 - 1
      else if DayFromYear (y0 + 1) \<le> d then y0 + 1
      else y0)"

definition InLeapYear :: "int \<Rightarrow> int" where
  "InLeapYear t = (if DaysInYear (YearFromTime t) = 366 then 1 else 0)"

definition DayWithinYear :: "int \<Rightarrow> int" where
  "DayWithinYear t = Day t - DayFromYear (YearFromTime t)"

text \<open>Days of the year before month \<open>m\<close> (0 is January); \<open>leap\<close> is 1 in a leap
  year and 0 otherwise.\<close>

definition monthStart :: "int \<Rightarrow> int \<Rightarrow> int" where
  "monthStart m leap =
     (if m \<le> 0 then 0 else if m = 1 then 31
      else [59, 90, 120, 151, 181, 212, 243, 273, 304, 334] ! nat (min m 11 - 2) + leap)"

definition MonthFromTime :: "int \<Rightarrow> int" where
  "MonthFromTime t =
     (let d = DayWithinYear t; l = InLeapYear t in
      if d < 31 then 0 else if d < 59 + l then 1 else if d < 90 + l then 2
      else if d < 120 + l then 3 else if d < 151 + l then 4 else if d < 181 + l then 5
      else if d < 212 + l then 6 else if d < 243 + l then 7 else if d < 273 + l then 8
      else if d < 304 + l then 9 else if d < 334 + l then 10 else 11)"

definition DateFromTime :: "int \<Rightarrow> int" where
  "DateFromTime t = DayWithinYear t - monthStart (MonthFromTime t) (InLeapYear t) + 1"

definition WeekDay :: "int \<Rightarrow> int" where
  "WeekDay t = (Day t + 4) mod 7"

definition MakeDay :: "int \<Rightarrow> int \<Rightarrow> int \<Rightarrow> int" where
  "MakeDay year month dt =
     (let ym = year + month div 12; mn = month mod 12 in
      DayFromYear ym + monthStart mn (if DaysInYear ym = 366 then 1 else 0) + dt - 1)"

definition MakeDate :: "int \<Rightarrow> int \<Rightarrow> int" where
  "MakeDate day time = day * msPerDay + time"

definition TimeClip :: "int \<Rightarrow> date" where
  "TimeClip t = (if \<bar>t\<bar> > 8640000000000000 then None else Some t)"

text \<open>Addition of numbers, \<open>NaN\<close> being absorbing.\<close>

definition js_add :: "int option \<Rightarrow> int option \<Rightarrow> int option" where
  "js_add a b = (case a of None \<Rightarrow> None | Some x \<Rightarrow> (case b of None \<Rightarrow> None | Some y \<Rightarrow> Some (x + y)))"

definition getDate :: "int \<Rightarrow> date \<Rightarrow> int option" where
  "getDate tza d = (case d of None \<Rightarrow> None | Some t \<Rightarrow> Some (DateFromTime (t + tza)))"

definition setDate :: "int \<Rightarrow> date \<Rightarrow> int option \<Rightarrow> date" where
  "setDate tza d dt =
     (case d of None \<Rightarrow> None
      | Some u \<Rightarrow>
          (case dt of None \<Rightarrow> None
           | Some n \<Rightarrow>
               (let t = u + tza;
                    newDate = MakeDate (MakeDay (YearFromTime t) (MonthFromTime t) n) (TimeWithinDay t)
                in TimeClip (newDate - tza))))"

text \<open>
  \<open>new Date(s)\<close> for a string of the date-only form \<open>YYYY-MM-DD\<close>, which is read as
  midnight UTC.  Node's engine accepts a month from 1 to 12 and a day from 1 to 31 and
  lets a day past the end of the month run into the next one; anything else of this
  form is an invalid date.  Strings of another form, which the calls modelled here
  never pass, are taken as invalid.
\<close>

definition isDateForm :: "string \<Rightarrow> bool" where
  "isDateForm s =
     (length s = 10 \<and> list_all isDigit (take 4 s) \<and> s ! 4 = CHR ''-''
      \<and> list_all isDigit (take 2 (drop 5 s)) \<and> s ! 7 = CHR ''-''
      \<and> list_all isDigit (drop 8 s))"

definition newDate :: "string option \<Rightarrow> date" where
  "newDate so =
     (case so of None \<Rightarrow> None
      | Some s \<Rightarrow>
          if isDateForm s then
            (let y = int (radixValue 10 (take 4 s));
                 m = int (radixValue 10 (take 2 (drop 5 s)));
                 d = int (radixValue 10 (drop 8 s))
             in if 1 \<le> m \<and> m \<le> 12 \<and> 1 \<le> d \<and> d \<le> 31
                then TimeClip (MakeDate (MakeDay y (m - 1) d) 0) else None)
          else None)"

fun decimal :: "nat \<Rightarrow> string" where
  "decimal n = (if n < 10 then [''0123456789'' ! n]
                else decimal (n div 10) @ [''0123456789'' ! (n mod 10)])"

definition padZero :: "nat \<Rightarrow> nat \<Rightarrow> string" where
  "padZero w n = replicate (w - length (decimal n)) CHR ''0'' @ decimal n"

definition dayName :: "int \<Rightarrow> string" where
  "dayName w = [''Sun'', ''Mon'', ''Tue'', ''Wed'', ''Thu'', ''Fri'', ''Sat''] ! nat w"

definition monthName :: "int \<Rightarrow> string" where
  "monthName m =
     [''Jan'', ''Feb'', ''Mar'', ''Apr'', ''May'', ''Jun'',
      ''Jul'', ''Aug'', ''Sep'', ''Oct'', ''Nov'', ''Dec''] ! nat m"

definition toDateString :: "int \<Rightarrow> date \<Rightarrow> string" where
  "toDateString tza d =
     (case d of None \<Rightarrow> ''Invalid Date''
      | Some u \<Rightarrow>
          (let t = u + tza; y = YearFromTime t in
           dayName (WeekDay t) @ '' '' @ monthName (MonthFromTime t) @ '' ''
           @ padZero 2 (nat (DateFromTime t)) @ '' ''
           @ (if y \<ge> 0 then [] else ''-'') @ padZero 4 (nat \<bar>y\<bar>)))"

text \<open>\<open>toISOString\<close> prints UTC and throws a \<open>RangeError\<close> (\<open>None\<close>) on an
  invalid date.\<close>

definition toISOString :: "date \<Rightarrow> string option" where
  "toISOString d =
     (case d of None \<Rightarrow> None
      | Some t \<Rightarrow>
          (let y = YearFromTime t; ms = nat (TimeWithinDay t) in
           Some ((if 0 \<le> y \<and> y \<le> 9999 then padZero 4 (nat y)
                  else (if y < 0 then ''-'' else ''+'') @ padZero 6 (nat \<bar>y\<bar>))
                 @ ''-'' @ padZero 2 (nat (MonthFromTime t + 1))
                 @ ''-'' @ padZero 2 (nat (DateFromTime t))
                 @ ''T'' @ padZero 2 (ms div 3600000)
                 @ '':'' @ padZero 2 (ms div 60000 mod 60)
                 @ '':'' @ padZero 2 (ms div 1000 mod 60)
                 @ ''.'' @ padZero 3 (ms mod 1000) @ ''Z'')))"

section \<open>Cycle date arithmetic\<close>

text \<open>The \<open>data\<close> object of the cycle flow.\<close>

record cycle_data =
  lastPeriod :: "string option"
  cycleLength :: "string option"

subsection \<open>Router side (index.js)\<close>

text \<open>\<open>parseInt(data.cycleLength) || 28\<close>: \<open>NaN\<close> and 0 are falsy.\<close>

definition cycleLengthOr28 :: "string option \<Rightarrow> int" where
  "cycleLengthOr28 so =
     (case so of None \<Rightarrow> 28
      | Some s \<Rightarrow> (case parseInt s of None \<Rightarrow> 28 | Some n \<Rightarrow> if n = 0 then 28 else n))"

text \<open>The local \<open>ovulationDay\<close> of \<open>calculateFertileWindow\<close>.\<close>

definition ovulationDay :: "int \<Rightarrow> date \<Rightarrow> int \<Rightarrow> date" where
  "ovulationDay tza lastP len =
     setDate tza lastP (js_add (getDate tza lastP) (Some (len - 14)))"

text \<open>The locals \<open>startWindow\<close> and \<open>endWindow\<close>: each is a fresh copy of
  \<open>ovulationDay\<close>, moved by \<open>setDate\<close>.\<close>

definition fertileWindowDates :: "int \<Rightarrow> date \<Rightarrow> int \<Rightarrow> date \<times> date" where
  "fertileWindowDates tza lastP len =
     (let ov = ovulationDay tza lastP len;
          startWindow = setDate tza ov (js_add (getDate tza ov) (Some (- 5)));
          endWindow = setDate tza ov (js_add (getDate tza ov) (Some 1))
      in (startWindow, endWindow))"

definition calculateFertileWindow :: "int \<Rightarrow> date \<Rightarrow> int \<Rightarrow> string" where
  "calculateFertileWindow tza lastP len =
     (case fertileWindowDates tza lastP len of
        (startWindow, endWindow) \<Rightarrow>
          toDateString tza startWindow @ '' to '' @ toDateString tza endWindow)"

text \<open>The local \<open>nextPeriod\<close> of \<open>generateCyclePredictions\<close>.\<close>

definition nextPeriodDate :: "int \<Rightarrow> cycle_data \<Rightarrow> date" where
  "nextPeriodDate tza d =
     (let lastP = newDate (lastPeriod d); len = cycleLengthOr28 (cycleLength d)
      in setDate tza lastP (js_add (getDate tza lastP) (Some len)))"

text \<open>The text of the predictions: the two lines that follow the heading, by the
  value each interpolates.\<close>

record predictions =
  nextPeriodLine :: string
  fertileWindowLine :: string

definition generateCyclePredictions :: "int \<Rightarrow> cycle_data \<Rightarrow> predictions" where
  "generateCyclePredictions tza d =
     \<lparr>nextPeriodLine = toDateString tza (nextPeriodDate tza d),
      fertileWindowLine =
        calculateFertileWindow tza (newDate (lastPeriod d)) (cycleLengthOr28 (cycleLength d))\<rparr>"

subsection \<open>Database side (the record store module)\<close>

text \<open>A string argument that may be missing, as \<open>parseInt\<close> reads it.\<close>

definition parseIntArg :: "string option \<Rightarrow> int option" where
  "parseIntArg so = (case so of None \<Rightarrow> None | Some s \<Rightarrow> parseInt s)"

definition calculateNextPeriod :: "int \<Rightarrow> string option \<Rightarrow> string option \<Rightarrow> string option" where
  "calculateNextPeriod tza lastP len =
     (let d = newDate lastP;
          d = setDate tza d (js_add (getDate tza d) (parseIntArg len))
      in toISOString d)"

text \<open>
  The store's \<open>calculateFertileWindow\<close> keeps one \<open>Date\<close> object, \<open>ovulationDate\<close>,
  and calls \<open>setDate\<close> on it three times; every call moves the same object, so the
  third call starts from the date the second one left.
\<close>

definition db_fertileWindowDates :: "int \<Rightarrow> string option \<Rightarrow> string option \<Rightarrow> date \<times> date" where
  "db_fertileWindowDates tza lastP len =
     (let ovulationDate = newDate lastP;
          ovulationDate = setDate tza ovulationDate
             (js_add (js_add (getDate tza ovulationDate) (parseIntArg len)) (Some (- 14)));
          ovulationDate = setDate tza ovulationDate (js_add (getDate tza ovulationDate) (Some (- 5)));
          startD = ovulationDate;
          ovulationDate = setDate tza ovulationDate (js_add (getDate tza ovulationDate) (Some 6));
          endD = ovulationDate
      in (startD, endD))"

definition db_calculateFertileWindow ::
    "int \<Rightarrow> string option \<Rightarrow> string option \<Rightarrow> (string \<times> string) option" where
  "db_calculateFertileWindow tza lastP len =
     (case db_fertileWindowDates tza lastP len of
        (startD, endD) \<Rightarrow>
          (case toISOString startD of None \<Rightarrow> None
           | Some a \<Rightarrow> (case toISOString endD of None \<Rightarrow> None | Some b \<Rightarrow> Some (a, b))))"

section \<open>String operations used by the router\<close>

definition toLowerChar :: "char \<Rightarrow> char" where
  "toLowerChar c =
     (let n = (of_char c :: nat) in
      if (65 \<le> n \<and> n \<le> 90) \<or> (192 \<le> n \<and> n \<le> 222 \<and> n \<noteq> 215)
      then char_of (n + 32) else c)"

definition toLowerCase :: "string \<Rightarrow> string" where
  "toLowerCase s = map toLowerChar s"

definition startsWith :: "string \<Rightarrow> string \<Rightarrow> bool" where
  "startsWith s p = (take (length p) s = p)"

definition includes_str :: "string \<Rightarrow> string \<Rightarrow> bool" where
  "includes_str s p = list_ex (\<lambda>i. take (length p) (drop i s) = p) [0..<Suc (length s)]"

text \<open>\<open>s.split(' ')\<close> and \<open>xs.join(' ')\<close>.\<close>

fun splitSpace :: "string \<Rightarrow> string list" where
  "splitSpace [] = [[]]"
| "splitSpace (c # cs) =
     (if c = CHR '' '' then [] # splitSpace cs
      else (case splitSpace cs of [] \<Rightarrow> [[c]] | w # ws \<Rightarrow> (c # w) # ws))"

fun joinSpace :: "string list \<Rightarrow> string" where
  "joinSpace [] = []"
| "joinSpace [w] = w"
| "joinSpace (w # v # ws) = w @ '' '' @ joinSpace (v # ws)"

text \<open>The regular expressions of the step validators.\<close>

definition isDigits :: "string \<Rightarrow> bool" where \<comment> \<open>\<open>/^\d+$/\<close>\<close>
  "isDigits s = (s \<noteq> [] \<and> list_all isDigit s)"

definition isDecimal :: "string \<Rightarrow> bool" where \<comment> \<open>\<open>/^\d+(\.\d+)?$/\<close>\<close>
  "isDecimal s =
     (let a = takeWhile isDigit s; r = dropWhile isDigit s in
      a \<noteq> [] \<and> (r = [] \<or> (take 1 r = ''.'' \<and> isDigits (drop 1 r))))"

definition charBetween :: "char \<Rightarrow> char \<Rightarrow> char \<Rightarrow> bool" where
  "charBetween lo hi c = ((of_char lo :: nat) \<le> of_char c \<and> (of_char c :: nat) \<le> of_char hi)"

definition isOneToSeven :: "string \<Rightarrow> bool" where \<comment> \<open>\<open>/^[1-7]$/\<close>\<close>
  "isOneToSeven s = (length s = 1 \<and> charBetween CHR ''1'' CHR ''7'' (s ! 0))"

definition isThreeToSix :: "string \<Rightarrow> bool" where \<comment> \<open>\<open>/^[3-6]$/\<close>\<close>
  "isThreeToSix s = (length s = 1 \<and> charBetween CHR ''3'' CHR ''6'' (s ! 0))"

definition isCycleLength :: "string \<Rightarrow> bool" where \<comment> \<open>\<open>/^(2[1-9]|3[0-5])$/\<close>\<close>
  "isCycleLength s =
     (length s = 2 \<and>
      ((s ! 0 = CHR ''2'' \<and> charBetween CHR ''1'' CHR ''9'' (s ! 1)) \<or>
       (s ! 0 = CHR ''3'' \<and> charBetween CHR ''0'' CHR ''5'' (s ! 1))))"

text \<open>\<open>/health|symptom|pain|doctor|medical/i\<close>: without the unicode flag, only the
  ASCII letters of either case match the letters of the pattern.\<close>

definition asciiLower :: "char \<Rightarrow> char" where
  "asciiLower c =
     (let n = (of_char c :: nat) in if 65 \<le> n \<and> n \<le> 90 then char_of (n + 32) else c)"

definition hasHealthKeyword :: "string \<Rightarrow> bool" where
  "hasHealthKeyword s =
     (let l = map asciiLower s in
      includes_str l ''health'' \<or> includes_str l ''symptom'' \<or> includes_str l ''pain''
      \<or> includes_str l ''doctor'' \<or> includes_str l ''medical'')"

text \<open>
  The binary64 value of a rational that is not negative: the nearest multiple of the
  unit in the last place of its binade (\<open>2\<close> to the power \<open>e - 52\<close> for a value
  from \<open>2\<close> to the \<open>e\<close> up to \<open>2\<close> to the \<open>e + 1\<close>, and never less than
  \<open>2\<close> to the \<open>-1074\<close>), a tie going to the even multiple.  The exponent is
  not bounded above: a value that rounds to \<open>2\<close> to the \<open>1024\<close> or beyond is
  \<open>Infinity\<close> in the runtime and stays a rational that large here, which like
  \<open>Infinity\<close> is greater than every binary64 number.
\<close>

definition pow2 :: "int \<Rightarrow> rat" where
  "pow2 k = (if 0 \<le> k then 2 ^ nat k else 1 / 2 ^ nat (- k))"

definition binade :: "rat \<Rightarrow> int" where
  "binade v = (if 1 \<le> v then bitlen \<lfloor>v\<rfloor> - 1 else - bitlen (\<lceil>1 / v\<rceil> - 1))"

definition roundHalfEven :: "rat \<Rightarrow> int" where
  "roundHalfEven q =
     (let n = \<lfloor>q\<rfloor>; r = q - of_int n in
      if r < 1 / 2 then n else if 1 / 2 < r then n + 1 else if even n then n else n + 1)"

definition toBinary64 :: "rat \<Rightarrow> rat" where
  "toBinary64 v =
     (if v \<le> 0 then 0
      else (let ulp = pow2 (max (binade v) (- 1022) - 52)
            in of_int (roundHalfEven (v / ulp)) * ulp))"

text \<open>
  \<open>parseFloat\<close> is only ever applied to a string that has passed \<open>isDecimal\<close>; on
  those it is the binary64 value of the decimal, correctly rounded as Node's engine
  does.  Other strings are taken as \<open>NaN\<close>.
\<close>

definition parseFloat :: "string \<Rightarrow> rat option" where
  "parseFloat s =
     (if isDecimal s then
        (let a = takeWhile isDigit s; f = drop 1 (dropWhile isDigit s) in
         Some (toBinary64
                 (of_nat (radixValue 10 a) + of_nat (radixValue 10 f) / of_nat (10 ^ length f))))
      else None)"

definition rat_lt :: "rat option \<Rightarrow> rat \<Rightarrow> bool" where
  "rat_lt x n = (case x of None \<Rightarrow> False | Some v \<Rightarrow> v < n)"

definition rat_gt :: "rat option \<Rightarrow> rat \<Rightarrow> bool" where
  "rat_gt x n = (case x of None \<Rightarrow> False | Some v \<Rightarrow> v > n)"

text \<open>\<open>s > n\<close> for a string \<open>s\<close>: the string is converted to a number first.  The
  conversion is modelled for strings of decimal digits, which are all the flows
  store; the empty string converts to 0 and any other string is taken as \<open>NaN\<close>.\<close>

definition stringGt :: "string option \<Rightarrow> int \<Rightarrow> bool" where
  "stringGt so n =
     (case so of None \<Rightarrow> False
      | Some s \<Rightarrow> if list_all isDigit (trim s) then int (radixValue 10 (trim s)) > n else False)"

section \<open>Sessions and the state manager (index.js, stateManager)\<close>

type_synonym phone = string

text \<open>The columns of a \<open>users\<close> row that the router reads.\<close>

record user_row =
  user_name :: string
  user_sex :: "string option"

text \<open>The \<open>data\<close> objects of the flows; a property that has not been assigned is
  \<open>None\<close>.\<close>

record onboarding_data =
  name :: "string option"
  age :: "int option"
  sex :: "string option"
  height :: "rat option"
  weight :: "rat option"
  medical_history :: "string option"

record fitness_data =
  goals :: "string option"
  fit_frequency :: "string option"
  equipment :: "string option"

record meals_data =
  preferences :: "string option"
  allergies :: "string option"
  meal_frequency :: "string option"

datatype onboarding_step = OB_name | OB_age | OB_sex | OB_height | OB_weight | OB_medical_history

datatype assessment_step =
  AS_sleep | AS_water | AS_exercise | AS_stress | AS_diet | AS_smoking | AS_alcohol | AS_complete

datatype fitness_step = FI_goals | FI_frequency | FI_equipment

datatype meals_step = ME_preferences | ME_allergies | ME_frequency

datatype cycle_step = CY_last_period | CY_length

record onboarding_flow =
  ob_step :: onboarding_step
  ob_data :: onboarding_data

record assessment_flow =
  as_step :: assessment_step
  as_data :: assessment_data

record fitness_flow =
  fi_step :: fitness_step
  fi_data :: fitness_data

record meals_flow =
  me_step :: meals_step
  me_data :: meals_data

record cycle_flow =
  cy_step :: cycle_step
  cy_data :: cycle_data

text \<open>
  The state object of one phone number.  The source only ever tests these properties
  for truthiness, so a flag is a \<open>bool\<close> (absent and \<open>false\<close> alike are \<open>False\<close>)
  and a flow is an \<open>option\<close> (absent and \<open>null\<close> alike are \<open>None\<close>).
\<close>

record session =
  awaitingConsent :: bool
  onboarding :: "onboarding_flow option"
  onboardingComplete :: bool
  awaitingAssessmentChoice :: bool
  assessment :: "assessment_flow option"
  lastAssessment :: "int option"
  reminderSent :: bool
  fitness :: "fitness_flow option"
  meals :: "meals_flow option"
  cycle :: "cycle_flow option"
  lastActivity :: "int option"

definition emptySession :: session where
  "emptySession =
     \<lparr>awaitingConsent = False, onboarding = None, onboardingComplete = False,
      awaitingAssessmentChoice = False, assessment = None, lastAssessment = None,
      reminderSent = False, fitness = None, meals = None, cycle = None,
      lastActivity = None\<rparr>"

text \<open>The two maps of \<open>stateManager\<close>; a pending reminder is held by its fire time.\<close>

record store =
  states :: "phone \<rightharpoonup> session"
  reminders :: "phone \<rightharpoonup> int"

definition getState :: "store \<Rightarrow> phone \<Rightarrow> session" where
  "getState st p = (case states st p of None \<Rightarrow> emptySession | Some s \<Rightarrow> s)"

text \<open>\<open>setState\<close> spreads the old state and then the given properties over it: the
  given properties are assigned and every other property keeps its value.  The
  properties assigned are given here as a record update.\<close>

definition setState :: "phone \<Rightarrow> (session \<Rightarrow> session) \<Rightarrow> store \<Rightarrow> store" where
  "setState p upd st = st\<lparr>states := (states st)(p \<mapsto> upd (getState st p))\<rparr>"

definition clearReminder :: "phone \<Rightarrow> store \<Rightarrow> store" where
  "clearReminder p st = st\<lparr>reminders := (reminders st)(p := None)\<rparr>"

definition setReminder :: "phone \<Rightarrow> int \<Rightarrow> store \<Rightarrow> store" where
  "setReminder p t st = (let st1 = clearReminder p st in st1\<lparr>reminders := (reminders st1)(p \<mapsto> t)\<rparr>)"

definition cleanup :: "phone \<Rightarrow> store \<Rightarrow> store" where
  "cleanup p st = clearReminder p (st\<lparr>states := (states st)(p := None)\<rparr>)"

section \<open>Collaborators: record store, generation service, outbound channel\<close>

text \<open>The outcome of a call that may throw.\<close>

datatype 'a io = Returns 'a | Throws

text \<open>
  What the world outside the router does while one message is handled: the clock,
  the local time zone offset, the outcome of the router's profile lookup, whether the
  write the router itself makes is accepted by the record store, and, for the
  generation module, the outcomes of its own two reads, of its own write and of the
  generation request (the reply after \<open>formatResponse\<close>).
\<close>

record env =
  now :: int
  localTZA :: int
  getUserProfile_result :: "user_row option io"
  db_write_ok :: bool
  cohere_getUserProfile :: "user_row option io"
  cohere_getLatestHealthAssessment :: "bool io"
  cohere_saveDiagnosis_ok :: bool
  cohere_generate :: "string io"

datatype fitness_kind = WeightLoss | MuscleGain | Balanced

record fitness_plan =
  fp_goals :: string
  fp_frequency :: "string option"
  fp_kind :: fitness_kind

datatype menu_kind = Vegetarian | Keto | Standard

record meal_plan =
  mp_preferences :: string
  mp_frequency :: "string option"
  mp_menu :: menu_kind
  mp_snacks :: bool

text \<open>
  The texts the router sends.  \<open>Text\<close> carries a string as the source builds it.
  A literal or template of the source that holds a pictograph, the terms, the service
  menu or a generated plan has a constructor of its own, with the values the
  template interpolates.
\<close>

datatype msg =
  Text string
  | M_Hello | M_Terms | M_Services | M_Farewell
  | M_ProfileComplete "rat option" | M_ProfileError
  | M_RemindLater | M_Reminder
  | M_HealthScore int string | M_AssessmentSaveError
  | M_WelcomeBack string | M_UnknownCommand | M_HowCanIHelp
  | M_YourFitnessPlan fitness_plan | M_HeresYourFitnessPlan fitness_plan
  | M_YourMealPlan meal_plan | M_HeresYourMealPlan meal_plan
  | M_CyclePredictions predictions

datatype db_call =
  SaveUserProfile phone onboarding_data
  | SaveHealthAssessment phone int assessment_data string
  | SaveDiagnosis phone string string
  | SaveFitnessPlan phone fitness_data
  | SaveMealPlan phone meals_data
  | SaveCycleData phone cycle_data

text \<open>
  What the router does to the outside, in order: a text handed to \<open>safeReply\<close>
  (which swallows a transport failure), and a write to the record store with
  whether it succeeded.
\<close>

datatype action = Reply phone msg | Persist db_call bool

section \<open>The generation module (cohere.js)\<close>

datatype context_type = Ctx_diagnosis | Ctx_assessment | Ctx_menstrual | Ctx_general

definition getFallbackMessage :: "context_type \<Rightarrow> string" where
  "getFallbackMessage ty =
     (case ty of
        Ctx_diagnosis \<Rightarrow>
          ''I can't analyze symptoms currently. Please monitor for:\<newline>- Worsening condition\<newline>- Fever\<newline>- Unusual pain''
      | Ctx_assessment \<Rightarrow> ''Health analysis unavailable. Try again later.''
      | _ \<Rightarrow> ''I'm having trouble responding. Please rephrase your question.'')"

definition generateAliyaResponse :: "env \<Rightarrow> context_type \<Rightarrow> string" where
  "generateAliyaResponse e ty =
     (case cohere_generate e of Returns t \<Rightarrow> t | Throws \<Rightarrow> getFallbackMessage ty)"

definition unableToAnalyze :: "string \<Rightarrow> string" where
  "unableToAnalyze symptoms =
     ''I'm unable to analyze symptoms right now. For '' @ symptoms
     @ '', watch for:\<newline>\<newline>- Fever above 38'' @ [char_of (176 :: nat)]
     @ ''C\<newline>- Difficulty breathing\<newline>- Severe pain\<newline>\<newline>''
     @ ''When in doubt, consult a doctor.''"

text \<open>\<open>generateDiagnosisResponse\<close> returns its text and the write it made.\<close>

definition generateDiagnosisResponse :: "env \<Rightarrow> phone \<Rightarrow> string \<Rightarrow> string \<times> action list" where
  "generateDiagnosisResponse e p symptoms =
     (case cohere_getUserProfile e of
        Throws \<Rightarrow> (unableToAnalyze symptoms, [])
      | Returns user \<Rightarrow>
          (case cohere_getLatestHealthAssessment e of
             Throws \<Rightarrow> (unableToAnalyze symptoms, [])
           | Returns assessmentRow \<Rightarrow>
               (let diagnosis = generateAliyaResponse e Ctx_diagnosis in
                if cohere_saveDiagnosis_ok e
                then (diagnosis, [Persist (SaveDiagnosis p symptoms diagnosis) True])
                else (unableToAnalyze symptoms,
                      [Persist (SaveDiagnosis p symptoms diagnosis) False]))))"

definition generateHealthAnalysis :: "env \<Rightarrow> phone \<Rightarrow> string" where
  "generateHealthAnalysis e p =
     (case cohere_getUserProfile e of
        Throws \<Rightarrow> ''Couldn't generate health analysis. Try again later.''
      | Returns user \<Rightarrow>
          (case cohere_getLatestHealthAssessment e of
             Throws \<Rightarrow> ''Couldn't generate health analysis. Try again later.''
           | Returns assessmentRow \<Rightarrow>
               if \<not> assessmentRow then ''Complete a health assessment first (/assessment)''
               else generateAliyaResponse e Ctx_assessment))"

definition generatePeriodTips :: "env \<Rightarrow> phone \<Rightarrow> string" where
  "generatePeriodTips e p =
     (case cohere_getUserProfile e of
        Throws \<Rightarrow> ''General tips: Stay hydrated, use heat therapy, monitor symptoms.''
      | Returns user \<Rightarrow>
          (case user of None \<Rightarrow> ''Cycle tracking available for female users.''
           | Some u \<Rightarrow>
               if user_sex u \<noteq> Some ''female'' then ''Cycle tracking available for female users.''
               else generateAliyaResponse e Ctx_menstrual))"

definition answerGeneralHealthQuestion :: "env \<Rightarrow> phone \<Rightarrow> string \<Rightarrow> string" where
  "answerGeneralHealthQuestion e p question =
     (case cohere_getUserProfile e of
        Throws \<Rightarrow> ''I can't answer that now. For urgent concerns, contact a doctor.''
      | Returns user \<Rightarrow> generateAliyaResponse e Ctx_general)"

section \<open>Plans and derived values (index.js helpers)\<close>

text \<open>The quotient that \<open>calculateBMI\<close> hands to \<open>toFixed(1)\<close>, before the
  runtime rounds it; with a missing operand or a zero height the source prints no
  finite number.\<close>

definition calculateBMI :: "rat option \<Rightarrow> rat option \<Rightarrow> rat option" where
  "calculateBMI h w =
     (case h of None \<Rightarrow> None
      | Some hv \<Rightarrow> (case w of None \<Rightarrow> None
                    | Some wv \<Rightarrow> if hv = 0 then None else Some (wv / ((hv / 100) ^ 2))))"

text \<open>\<open>generateFitnessPlan\<close> and \<open>generateMealPlan\<close> throw a \<open>TypeError\<close>
  (\<open>None\<close>) when the property they lower-case is undefined.\<close>

definition generateFitnessPlan :: "fitness_data \<Rightarrow> fitness_plan option" where
  "generateFitnessPlan d =
     (case goals d of None \<Rightarrow> None
      | Some g \<Rightarrow>
          Some \<lparr>fp_goals = g, fp_frequency = fit_frequency d,
                fp_kind = (if includes_str (toLowerCase g) ''weight loss'' then WeightLoss
                           else if includes_str (toLowerCase g) ''muscle gain'' then MuscleGain
                           else Balanced)\<rparr>)"

definition generateMealPlan :: "meals_data \<Rightarrow> meal_plan option" where
  "generateMealPlan d =
     (case preferences d of None \<Rightarrow> None
      | Some pr \<Rightarrow>
          Some \<lparr>mp_preferences = pr, mp_frequency = meal_frequency d,
                mp_menu = (if includes_str (toLowerCase pr) ''vegetarian'' then Vegetarian
                           else if includes_str (toLowerCase pr) ''keto'' then Keto
                           else Standard),
                mp_snacks = stringGt (meal_frequency d) 3\<rparr>)"

section \<open>Conversation flows (index.js)\<close>

definition apology :: string where
  "apology = ''Sorry, I encountered an error. Please try again.''"

definition handleNewUserGreeting :: "phone \<Rightarrow> store \<Rightarrow> store \<times> action list" where
  "handleNewUserGreeting p st =
     (setState p (\<lambda>s. s\<lparr>awaitingConsent := True\<rparr>) st, [Reply p M_Hello, Reply p M_Terms])"

definition handleConsentResponse :: "phone \<Rightarrow> string \<Rightarrow> store \<Rightarrow> store \<times> action list" where
  "handleConsentResponse p response st =
     (let cleanResponse = trim (toLowerCase response) in
      if cleanResponse = ''yes'' then
        (setState p (\<lambda>s. s\<lparr>awaitingConsent := False,
                             onboarding := Some \<lparr>ob_step = OB_name,
                               ob_data = \<lparr>name = None, age = None, sex = None, height = None,
                                          weight = None, medical_history = None\<rparr>\<rparr>\<rparr>) st,
         [Reply p (Text ''Thank you! Let's create your profile. What's your full name?'')])
      else if cleanResponse = ''no'' then (cleanup p st, [Reply p M_Farewell])
      else (st, [Reply p (Text ''Please respond with 'yes' or 'no'.'')]))"

definition assessmentOffer :: string where
  "assessmentOffer =
     ''Would you like to do your health assessment now? This will help me give better recommendations.\<newline>\<newline>''
     @ ''1. Yes, do it now\<newline>'' @ ''2. Remind me later\<newline>'' @ ''3. No, show me services''"

definition completeOnboarding ::
    "env \<Rightarrow> phone \<Rightarrow> onboarding_data \<Rightarrow> store \<Rightarrow> store \<times> action list" where
  "completeOnboarding e p profileData st =
     (if db_write_ok e then
        (setState p (\<lambda>s. s\<lparr>onboardingComplete := True, awaitingAssessmentChoice := True\<rparr>) st,
         [Persist (SaveUserProfile p profileData) True,
          Reply p (M_ProfileComplete (calculateBMI (height profileData) (weight profileData))),
          Reply p (Text assessmentOffer)])
      else (st, [Persist (SaveUserProfile p profileData) False, Reply p M_ProfileError]))"

text \<open>With no stored assessment, reading \<open>assessment.data\<close> throws inside the
  \<open>try\<close> of \<open>completeHealthAssessment\<close>, whose \<open>catch\<close> sends the save error.\<close>

definition completeHealthAssessment :: "env \<Rightarrow> phone \<Rightarrow> store \<Rightarrow> store \<times> action list" where
  "completeHealthAssessment e p st =
     (case assessment (getState st p) of
        None \<Rightarrow> (st, [Reply p M_AssessmentSaveError])
      | Some a \<Rightarrow>
          (let score = calculateHealthScore (as_data a);
               call = SaveHealthAssessment p score (as_data a) (getHealthRecommendations score)
           in if db_write_ok e then
                (setState p (\<lambda>s. s\<lparr>assessment := None, lastAssessment := Some (now e)\<rparr>) st,
                 [Reply p (M_HealthScore score (getHealthRecommendations score)),
                  Persist call True, Reply p M_Services])
              else (st, [Reply p (M_HealthScore score (getHealthRecommendations score)),
                         Persist call False, Reply p M_AssessmentSaveError])))"

text \<open>\<open>askAssessmentQuestion\<close> reads the step from the stored state; with no stored
  assessment it throws a \<open>TypeError\<close> (\<open>None\<close>).\<close>

definition askAssessmentQuestion :: "env \<Rightarrow> phone \<Rightarrow> store \<Rightarrow> (store \<times> action list) option" where
  "askAssessmentQuestion e p st =
     (case assessment (getState st p) of
        None \<Rightarrow> None
      | Some a \<Rightarrow>
          Some (case as_step a of
                  AS_sleep \<Rightarrow>
                    (st, [Reply p (Text ''How many hours do you sleep per night on average? (4-12)'')])
                | AS_water \<Rightarrow>
                    (st, [Reply p (Text ''How many glasses of water do you drink daily? (1-20)'')])
                | AS_exercise \<Rightarrow>
                    (st, [Reply p (Text ''How many days per week do you exercise? (0-7)'')])
                | AS_stress \<Rightarrow>
                    (st, [Reply p (Text ''Rate your stress level (1-10, where 1 is lowest):'')])
                | AS_diet \<Rightarrow>
                    (st, [Reply p (Text ''How would you rate your diet quality? (1-10, where 10 is healthiest):'')])
                | AS_smoking \<Rightarrow> (st, [Reply p (Text ''Do you smoke? (yes/no)'')])
                | AS_alcohol \<Rightarrow> (st, [Reply p (Text ''How many alcoholic drinks per week? (0-50)'')])
                | AS_complete \<Rightarrow> completeHealthAssessment e p st))"

text \<open>An exception that leaves \<open>askAssessmentQuestion\<close> inside
  \<open>handleAssessmentResponse\<close> is caught by the \<open>try\<close> there, which sends the
  apology.\<close>

definition askOrApologise :: "env \<Rightarrow> phone \<Rightarrow> store \<Rightarrow> store \<times> action list" where
  "askOrApologise e p st =
     (case askAssessmentQuestion e p st of None \<Rightarrow> (st, [Reply p (Text apology)]) | Some r \<Rightarrow> r)"

text \<open>\<open>initiateHealthAssessment\<close> is reached by a call that \<open>handleMessage\<close>
  returns without awaiting, so an exception in it would reach no \<open>catch\<close>; it asks
  right after it has stored the assessment.\<close>

definition initiateHealthAssessment :: "env \<Rightarrow> phone \<Rightarrow> store \<Rightarrow> store \<times> action list" where
  "initiateHealthAssessment e p st =
     (let st1 = setState p (\<lambda>s. s\<lparr>awaitingAssessmentChoice := False,
                 assessment := Some \<lparr>as_step = AS_sleep,
                   as_data = \<lparr>sleepHours = None, waterIntake = None, exerciseDays = None,
                              stressLevel = None, dietQuality = None, smokes = None,
                              alcoholDrinks = None\<rparr>\<rparr>\<rparr>) st
      in case askAssessmentQuestion e p st1 of
           None \<Rightarrow> (st1, [Reply p (Text ''Great! Let's begin your health assessment...'')])
         | Some (st2, acts) \<Rightarrow>
             (st2, Reply p (Text ''Great! Let's begin your health assessment...'') # acts))"

definition scheduleReminder :: "env \<Rightarrow> phone \<Rightarrow> int \<Rightarrow> store \<Rightarrow> store" where
  "scheduleReminder e p delayMs st = setReminder p (now e + delayMs) st"

text \<open>The callback of the reminder's timer, run when the timer fires.\<close>

definition reminderCallback :: "phone \<Rightarrow> store \<Rightarrow> store \<times> action list" where
  "reminderCallback p st = (setState p (\<lambda>s. s\<lparr>reminderSent := True\<rparr>) st, [Reply p M_Reminder])"

definition handleAssessmentChoice :: "env \<Rightarrow> phone \<Rightarrow> string \<Rightarrow> store \<Rightarrow> store \<times> action list" where
  "handleAssessmentChoice e p choice st =
     (let cleanChoice = trim (toLowerCase choice) in
      if cleanChoice = ''1'' \<or> cleanChoice = ''yes'' \<or> cleanChoice = ''now''
      then initiateHealthAssessment e p st
      else if cleanChoice = ''2'' \<or> cleanChoice = ''later'' \<or> cleanChoice = ''remind me later''
      then (scheduleReminder e p (24 * 60 * 60 * 1000) st, [Reply p M_RemindLater])
      else if cleanChoice = ''3'' \<or> cleanChoice = ''no'' then (st, [Reply p M_Services])
      else (st, [Reply p (Text ''Please choose:\<newline>1. Yes\<newline>2. Remind me later\<newline>3. No'')]))"

text \<open>The common tail of the accepting cases of \<open>handleAssessmentResponse\<close>: store the
  next step with the data, then ask.\<close>

definition assessmentAdvance ::
    "env \<Rightarrow> phone \<Rightarrow> assessment_step \<Rightarrow> assessment_data \<Rightarrow> store \<Rightarrow> store \<times> action list" where
  "assessmentAdvance e p nxt d st =
     askOrApologise e p
       (setState p (\<lambda>s. s\<lparr>assessment := Some \<lparr>as_step = nxt, as_data = d\<rparr>\<rparr>) st)"

definition invalidSmoking :: "string \<Rightarrow> bool" where
  "invalidSmoking response = (toLowerCase response \<noteq> ''yes'' \<and> toLowerCase response \<noteq> ''no'')"

definition answerYesNo :: string where
  "answerYesNo = ''Please answer with '' @ [char_of (34 :: nat)] @ ''yes'' @ [char_of (34 :: nat)]
     @ '' or '' @ [char_of (34 :: nat)] @ ''no'' @ [char_of (34 :: nat)]"

definition handleAssessmentResponse ::
    "env \<Rightarrow> phone \<Rightarrow> string \<Rightarrow> store \<Rightarrow> store \<times> action list" where
  "handleAssessmentResponse e p response st =
     (case assessment (getState st p) of
        None \<Rightarrow> (cleanup p st, [Reply p (Text ''Assessment completed. Type /help for options.'')])
      | Some a \<Rightarrow>
          (let d = as_data a in
           case as_step a of
             AS_sleep \<Rightarrow>
               (case parseInt response of
                  None \<Rightarrow> (st, [Reply p (Text ''Please enter a number between 4-12'')])
                | Some n \<Rightarrow> assessmentAdvance e p AS_water (d\<lparr>sleepHours := Some n\<rparr>) st)
           | AS_water \<Rightarrow>
               (case parseInt response of
                  None \<Rightarrow> (st, [Reply p (Text ''Please enter a number between 1-20'')])
                | Some n \<Rightarrow> assessmentAdvance e p AS_exercise (d\<lparr>waterIntake := Some n\<rparr>) st)
           | AS_exercise \<Rightarrow>
               (case parseInt response of
                  None \<Rightarrow> (st, [Reply p (Text ''Please enter a number between 0-7'')])
                | Some n \<Rightarrow> assessmentAdvance e p AS_stress (d\<lparr>exerciseDays := Some n\<rparr>) st)
           | AS_stress \<Rightarrow>
               (case parseInt response of
                  None \<Rightarrow> (st, [Reply p (Text ''Please enter a number between 1-10'')])
                | Some n \<Rightarrow> assessmentAdvance e p AS_diet (d\<lparr>stressLevel := Some n\<rparr>) st)
           | AS_diet \<Rightarrow>
               (case parseInt response of
                  None \<Rightarrow> (st, [Reply p (Text ''Please enter a number between 1-10'')])
                | Some n \<Rightarrow> assessmentAdvance e p AS_smoking (d\<lparr>dietQuality := Some n\<rparr>) st)
           | AS_smoking \<Rightarrow>
               (let sm = toLowerCase response in
                if invalidSmoking response then (st, [Reply p (Text answerYesNo)])
                else assessmentAdvance e p AS_alcohol (d\<lparr>smokes := Some sm\<rparr>) st)
           | AS_alcohol \<Rightarrow>
               (case parseInt response of
                  None \<Rightarrow> (st, [Reply p (Text ''Please enter a number between 0-50'')])
                | Some n \<Rightarrow> assessmentAdvance e p AS_complete (d\<lparr>alcoholDrinks := Some n\<rparr>) st)
           | AS_complete \<Rightarrow>
               (cleanup p st, [Reply p (Text ''Assessment completed. Type /help for options.'')])))"

section \<open>The message handler (index.js, handleMessage)\<close>

subsection \<open>Onboarding steps\<close>

text \<open>The conditions under which a step of the onboarding refuses its input.\<close>

definition invalidAge :: "string \<Rightarrow> bool" where
  "invalidAge body = (\<not> isDigits body \<or> js_lt (parseInt body) 0 \<or> js_gt (parseInt body) 150)"

definition invalidSex :: "string \<Rightarrow> bool" where
  "invalidSex body =
     (toLowerCase body \<noteq> ''male'' \<and> toLowerCase body \<noteq> ''female'' \<and> toLowerCase body \<noteq> ''other'')"

definition invalidHeight :: "string \<Rightarrow> bool" where
  "invalidHeight body =
     (\<not> isDecimal body \<or> rat_lt (parseFloat body) 50 \<or> rat_gt (parseFloat body) 300)"

definition invalidWeight :: "string \<Rightarrow> bool" where
  "invalidWeight body =
     (\<not> isDecimal body \<or> rat_lt (parseFloat body) 20 \<or> rat_gt (parseFloat body) 300)"

definition onboardingSet ::
    "phone \<Rightarrow> onboarding_step \<Rightarrow> onboarding_data \<Rightarrow> store \<Rightarrow> store" where
  "onboardingSet p stp d st =
     setState p (\<lambda>s. s\<lparr>onboarding := Some \<lparr>ob_step = stp, ob_data = d\<rparr>\<rparr>) st"

definition handleOnboarding :: "env \<Rightarrow> phone \<Rightarrow> string \<Rightarrow> store \<Rightarrow> store \<times> action list" where
  "handleOnboarding e p body st =
     (case onboarding (getState st p) of
        None \<Rightarrow> (st, [])
      | Some f \<Rightarrow>
          (let d = ob_data f in
           case ob_step f of
             OB_name \<Rightarrow>
               (onboardingSet p OB_age (d\<lparr>name := Some body\<rparr>) st, [Reply p (Text ''How old are you?'')])
           | OB_age \<Rightarrow>
               if invalidAge body
               then (st, [Reply p (Text ''Please enter a valid age (0-150).'')])
               else (onboardingSet p OB_sex (d\<lparr>age := parseInt body\<rparr>) st,
                     [Reply p (Text ''What's your sex? (male/female/other)'')])
           | OB_sex \<Rightarrow>
               if invalidSex body
               then (st, [Reply p (Text ''Please enter 'male', 'female', or 'other'.'')])
               else (onboardingSet p OB_height (d\<lparr>sex := Some (toLowerCase body)\<rparr>) st,
                     [Reply p (Text ''What's your height in cm?'')])
           | OB_height \<Rightarrow>
               if invalidHeight body
               then (st, [Reply p (Text ''Please enter a valid height in cm (50-300).'')])
               else (onboardingSet p OB_weight (d\<lparr>height := parseFloat body\<rparr>) st,
                     [Reply p (Text ''What's your weight in kg?'')])
           | OB_weight \<Rightarrow>
               if invalidWeight body
               then (st, [Reply p (Text ''Please enter a valid weight in kg (20-300).'')])
               else (onboardingSet p OB_medical_history (d\<lparr>weight := parseFloat body\<rparr>) st,
                     [Reply p (Text ''Any medical history or conditions? (Enter 'none' if none)'')])
           | OB_medical_history \<Rightarrow>
               (case completeOnboarding e p (d\<lparr>medical_history := Some body\<rparr>) st of
                  (st1, acts) \<Rightarrow> (setState p (\<lambda>s. s\<lparr>onboarding := None\<rparr>) st1, acts))))"

subsection \<open>Commands\<close>

definition handleDiagnose :: "env \<Rightarrow> phone \<Rightarrow> string list \<Rightarrow> store \<Rightarrow> store \<times> action list" where
  "handleDiagnose e p args st =
     (if args = [] then (st, [Reply p (Text ''Please describe symptoms after /diagnose'')])
      else
        (let symptoms = joinSpace args in
         case generateDiagnosisResponse e p symptoms of
           (diagnosis, writes) \<Rightarrow>
             if db_write_ok e
             then (st, writes @ [Reply p (Text diagnosis),
                                 Persist (SaveDiagnosis p symptoms diagnosis) True])
             else (st, writes @ [Reply p (Text diagnosis),
                                 Persist (SaveDiagnosis p symptoms diagnosis) False,
                                 Reply p (Text ''I couldn't analyze symptoms. Please consult a doctor if concerned.'')])))"

definition handleCommand ::
    "env \<Rightarrow> phone \<Rightarrow> user_row option \<Rightarrow> string \<Rightarrow> store \<Rightarrow> store \<times> action list" where
  "handleCommand e p user body st =
     (let command = (case splitSpace body of [] \<Rightarrow> [] | c # as \<Rightarrow> c);
          args = (case splitSpace body of [] \<Rightarrow> [] | c # as \<Rightarrow> as);
          cmd = toLowerCase command
      in
      if cmd = ''/start'' then
        (case user of
           Some u \<Rightarrow> (st, [Reply p (M_WelcomeBack (user_name u))])
         | None \<Rightarrow> handleNewUserGreeting p st)
      else if cmd = ''/diagnose'' then handleDiagnose e p args st
      else if cmd = ''/fit'' then
        (setState p (\<lambda>s. s\<lparr>fitness := Some \<lparr>fi_step = FI_goals,
            fi_data = \<lparr>goals = None, fit_frequency = None, equipment = None\<rparr>\<rparr>\<rparr>) st,
         [Reply p (Text ''Starting your fitness program! What are your fitness goals?\<newline>1. Weight loss\<newline>2. Muscle gain\<newline>3. Endurance\<newline>4. General fitness'')])
      else if cmd = ''/meals'' then
        (setState p (\<lambda>s. s\<lparr>meals := Some \<lparr>me_step = ME_preferences,
            me_data = \<lparr>preferences = None, allergies = None, meal_frequency = None\<rparr>\<rparr>\<rparr>) st,
         [Reply p (Text ''Creating meal plans! What are your dietary preferences?\<newline>1. Vegetarian\<newline>2. Vegan\<newline>3. Low-carb\<newline>4. Keto\<newline>5. Balanced'')])
      else if cmd = ''/cycle'' then
        (if (case user of None \<Rightarrow> None | Some u \<Rightarrow> user_sex u) \<noteq> Some ''female''
         then (st, [Reply p (Text ''Cycle tracking is available only for female users.'')])
         else (setState p (\<lambda>s. s\<lparr>cycle := Some \<lparr>cy_step = CY_last_period,
                  cy_data = \<lparr>lastPeriod = None, cycleLength = None\<rparr>\<rparr>\<rparr>) st,
               [Reply p (Text ''When was the first day of your last menstrual period? (YYYY-MM-DD)'')]))
      else if cmd = ''/data'' then
        (let analysis = generateHealthAnalysis e p in
         if analysis \<noteq> [] then (st, [Reply p (Text analysis)])
         else (st, [Reply p (Text ''No health data found. Complete an assessment first!'')]))
      else if cmd = ''/periodtips'' then
        (let tips = generatePeriodTips e p in
         if tips \<noteq> [] then (st, [Reply p (Text tips)])
         else (st, [Reply p (Text ''This feature is for female users. Need other health tips?'')]))
      else if cmd = ''/help'' then (st, [Reply p M_Services])
      else (st, [Reply p M_UnknownCommand]))"

subsection \<open>Fitness, meals and cycle steps\<close>

text \<open>
  The steps assign to the \<open>data\<close> object that the stored state holds, so the
  assignment is in the store even where \<open>setState\<close> is not reached.  \<open>storeFitness\<close>
  and its siblings write a flow into the stored state of a phone number as it is.
\<close>

definition storeFitness :: "phone \<Rightarrow> fitness_flow \<Rightarrow> store \<Rightarrow> store" where
  "storeFitness p f st = setState p (\<lambda>s. s\<lparr>fitness := Some f\<rparr>) st"

definition storeMeals :: "phone \<Rightarrow> meals_flow \<Rightarrow> store \<Rightarrow> store" where
  "storeMeals p f st = setState p (\<lambda>s. s\<lparr>meals := Some f\<rparr>) st"

definition storeCycle :: "phone \<Rightarrow> cycle_flow \<Rightarrow> store \<Rightarrow> store" where
  "storeCycle p f st = setState p (\<lambda>s. s\<lparr>cycle := Some f\<rparr>) st"

definition handleFitness :: "env \<Rightarrow> phone \<Rightarrow> string \<Rightarrow> store \<Rightarrow> store \<times> action list" where
  "handleFitness e p body st =
     (case fitness (getState st p) of
        None \<Rightarrow> (st, [])
      | Some f \<Rightarrow>
          (let d = fi_data f in
           case fi_step f of
             FI_goals \<Rightarrow>
               (storeFitness p \<lparr>fi_step = FI_frequency, fi_data = d\<lparr>goals := Some body\<rparr>\<rparr> st,
                [Reply p (Text ''How many days can you workout weekly? (1-7)'')])
           | FI_frequency \<Rightarrow>
               if \<not> isOneToSeven body
               then (st, [Reply p (Text ''Please enter a number between 1-7'')])
               else (storeFitness p \<lparr>fi_step = FI_equipment, fi_data = d\<lparr>fit_frequency := Some body\<rparr>\<rparr> st,
                     [Reply p (Text ''What equipment do you have?\<newline>1. None\<newline>2. Dumbbells\<newline>3. Resistance bands\<newline>4. Full gym'')])
           | FI_equipment \<Rightarrow>
               (let d1 = d\<lparr>equipment := Some body\<rparr> in
                case generateFitnessPlan d1 of
                  None \<Rightarrow> (storeFitness p (f\<lparr>fi_data := d1\<rparr>) st, [Reply p (Text apology)])
                | Some plan \<Rightarrow>
                    if db_write_ok e
                    then (setState p (\<lambda>s. s\<lparr>fitness := None\<rparr>) st,
                          [Reply p (M_YourFitnessPlan plan), Persist (SaveFitnessPlan p d1) True])
                    else (setState p (\<lambda>s. s\<lparr>fitness := None\<rparr>) st,
                          [Reply p (M_YourFitnessPlan plan), Persist (SaveFitnessPlan p d1) False,
                           Reply p (M_HeresYourFitnessPlan plan)]))))"

definition handleMeals :: "env \<Rightarrow> phone \<Rightarrow> string \<Rightarrow> store \<Rightarrow> store \<times> action list" where
  "handleMeals e p body st =
     (case meals (getState st p) of
        None \<Rightarrow> (st, [])
      | Some f \<Rightarrow>
          (let d = me_data f in
           case me_step f of
             ME_preferences \<Rightarrow>
               (storeMeals p \<lparr>me_step = ME_allergies, me_data = d\<lparr>preferences := Some body\<rparr>\<rparr> st,
                [Reply p (Text ''Any food allergies? (comma separated or 'none')'')])
           | ME_allergies \<Rightarrow>
               (storeMeals p \<lparr>me_step = ME_frequency, me_data = d\<lparr>allergies := Some body\<rparr>\<rparr> st,
                [Reply p (Text ''How many meals per day? (3-6)'')])
           | ME_frequency \<Rightarrow>
               if \<not> isThreeToSix body
               then (st, [Reply p (Text ''Please enter a number between 3-6'')])
               else
                 (let d1 = d\<lparr>meal_frequency := Some body\<rparr> in
                  case generateMealPlan d1 of
                    None \<Rightarrow> (storeMeals p (f\<lparr>me_data := d1\<rparr>) st, [Reply p (Text apology)])
                  | Some plan \<Rightarrow>
                      if db_write_ok e
                      then (setState p (\<lambda>s. s\<lparr>meals := None\<rparr>) st,
                            [Reply p (M_YourMealPlan plan), Persist (SaveMealPlan p d1) True])
                      else (setState p (\<lambda>s. s\<lparr>meals := None\<rparr>) st,
                            [Reply p (M_YourMealPlan plan), Persist (SaveMealPlan p d1) False,
                             Reply p (M_HeresYourMealPlan plan)]))))"

text \<open>\<open>saveCycleData\<close> builds its row with the store's own date functions before it
  queries; an invalid date makes \<open>toISOString\<close> throw, and the write fails.\<close>

definition saveCycleData_ok :: "env \<Rightarrow> cycle_data \<Rightarrow> bool" where
  "saveCycleData_ok e d =
     (calculateNextPeriod (localTZA e) (lastPeriod d) (cycleLength d) \<noteq> None
      \<and> db_calculateFertileWindow (localTZA e) (lastPeriod d) (cycleLength d) \<noteq> None
      \<and> db_write_ok e)"

definition handleCycle :: "env \<Rightarrow> phone \<Rightarrow> string \<Rightarrow> store \<Rightarrow> store \<times> action list" where
  "handleCycle e p body st =
     (case cycle (getState st p) of
        None \<Rightarrow> (st, [])
      | Some f \<Rightarrow>
          (let d = cy_data f in
           case cy_step f of
             CY_last_period \<Rightarrow>
               if \<not> isDateForm body
               then (st, [Reply p (Text ''Please use YYYY-MM-DD format'')])
               else (storeCycle p \<lparr>cy_step = CY_length, cy_data = d\<lparr>lastPeriod := Some body\<rparr>\<rparr> st,
                     [Reply p (Text ''Typical cycle length in days? (21-35)'')])
           | CY_length \<Rightarrow>
               if \<not> isCycleLength body
               then (st, [Reply p (Text ''Please enter a number between 21-35'')])
               else
                 (let d1 = d\<lparr>cycleLength := Some body\<rparr>;
                      predictions = generateCyclePredictions (localTZA e) d1
                  in if saveCycleData_ok e d1
                     then (setState p (\<lambda>s. s\<lparr>cycle := None\<rparr>) st,
                           [Reply p (M_CyclePredictions predictions),
                            Persist (SaveCycleData p d1) True])
                     else (storeCycle p (f\<lparr>cy_data := d1\<rparr>) st,
                           [Reply p (M_CyclePredictions predictions),
                            Persist (SaveCycleData p d1) False, Reply p (Text apology)]))))"

subsection \<open>The router\<close>

record message =
  msg_from :: phone
  msg_body :: "string option"

text \<open>\<open>msg.body?.trim()\<close>; a missing body is falsy like the empty string.\<close>

definition messageBody :: "message \<Rightarrow> string" where
  "messageBody m = (case msg_body m of None \<Rightarrow> [] | Some b \<Rightarrow> trim b)"

definition handleHealthQuestion :: "env \<Rightarrow> phone \<Rightarrow> string \<Rightarrow> store \<Rightarrow> store \<times> action list" where
  "handleHealthQuestion e p body st = (st, [Reply p (Text (answerGeneralHealthQuestion e p body))])"

text \<open>
  \<open>handleMessage\<close>.  A profile lookup that throws does so before the \<open>try\<close>: the
  handler's promise rejects and nothing else runs.
\<close>

definition handleMessage :: "env \<Rightarrow> message \<Rightarrow> store \<Rightarrow> store \<times> action list" where
  "handleMessage e m st =
     (let p = msg_from m;
          body = messageBody m
      in
      if body = [] then (st, [Reply p (Text ''Please send a valid message.'')])
      else
        (let state = getState st p in
         case getUserProfile_result e of
           Throws \<Rightarrow> (st, [])
         | Returns user \<Rightarrow>
             if user = None \<and> onboarding state = None \<and> \<not> awaitingConsent state
                \<and> \<not> startsWith body ''/''
             then handleNewUserGreeting p st
             else if assessment state \<noteq> None then handleAssessmentResponse e p body st
             else if awaitingConsent state then handleConsentResponse p body st
             else if awaitingAssessmentChoice state then handleAssessmentChoice e p body st
             else if onboarding state \<noteq> None then handleOnboarding e p body st
             else if startsWith body ''/'' then handleCommand e p user body st
             else if fitness state \<noteq> None then handleFitness e p body st
             else if meals state \<noteq> None then handleMeals e p body st
             else if cycle state \<noteq> None then handleCycle e p body st
             else if length body > 10 \<and> hasHealthKeyword body then handleHealthQuestion e p body st
             else (st, [Reply p M_HowCanIHelp])))"

subsection \<open>The hourly sweep\<close>

text \<open>\<open>state.lastActivity && (now - state.lastActivity > 24 * 60 * 60 * 1000)\<close>: a
  missing \<open>lastActivity\<close> and the number 0 are falsy.\<close>

definition stale :: "int \<Rightarrow> session \<Rightarrow> bool" where
  "stale t s =
     (case lastActivity s of None \<Rightarrow> False
      | Some a \<Rightarrow> a \<noteq> 0 \<and> t - a > 24 * 60 * 60 * 1000)"

text \<open>The sweep calls \<open>cleanup\<close> for every phone number whose state is stale;
  \<open>cleanup\<close> of one number touches no other, so the order does not matter.\<close>

definition sweep :: "int \<Rightarrow> store \<Rightarrow> store" where
  "sweep t st =
     \<lparr>states = (\<lambda>p. case states st p of None \<Rightarrow> None
                       | Some s \<Rightarrow> if stale t s then None else Some s),
      reminders = (\<lambda>p. case states st p of None \<Rightarrow> reminders st p
                          | Some s \<Rightarrow> if stale t s then None else reminders st p)\<rparr>"

text \<open>A run of the router over a list of messages, each with what the outside does
  while it is handled; the actions are collected in order.\<close>

fun run :: "(env \<times> message) list \<Rightarrow> store \<Rightarrow> store \<times> action list" where
  "run [] st = (st, [])"
| "run ((e, m) # ms) st =
     (case handleMessage e m st of
        (st1, acts) \<Rightarrow> (case run ms st1 of (st2, acts2) \<Rightarrow> (st2, acts @ acts2)))"

definition emptyStore :: store where
  "emptyStore = \<lparr>states = Map.empty, reminders = Map.empty\<rparr>"

section \<open>Sample inputs\<close>

text \<open>A world in which every collaborator call succeeds, the profile lookup returns
  the given row, the user has no stored assessment and the generation request fails
  over to its fallback text; and a text message.\<close>

definition env_ok :: "user_row option \<Rightarrow> env" where
  "env_ok user =
     \<lparr>now = 0, localTZA = 0, getUserProfile_result = Returns user, db_write_ok = True,
      cohere_getUserProfile = Returns user, cohere_getLatestHealthAssessment = Returns False,
      cohere_saveDiagnosis_ok = True, cohere_generate = Throws\<rparr>"

definition text_from :: "phone \<Rightarrow> string \<Rightarrow> message" where
  "text_from p b = \<lparr>msg_from = p, msg_body = Some b\<rparr>"

definition amina :: user_row where
  "amina = \<lparr>user_name = ''Amina'', user_sex = Some ''female''\<rparr>"

text \<open>Conversations from the empty store, and the stores they lead to: a new
  user up to the age question; the same user through onboarding into the first
  assessment question; a user with a profile two answers into the meals flow, and at
  the last question of the fitness and of the meals flow; a new user after the first
  message.\<close>

definition onboardingTalk :: "(env \<times> message) list" where
  "onboardingTalk =
     [(env_ok None, text_from ''u'' ''hello''), (env_ok None, text_from ''u'' ''yes''),
      (env_ok None, text_from ''u'' ''Amina'')]"

definition atAgeStep :: store where
  "atAgeStep = fst (run onboardingTalk emptyStore)"



definition atEquipmentStep :: store where
  "atEquipmentStep =
     fst (run [(env_ok (Some amina), text_from ''u'' ''/fit''),
               (env_ok (Some amina), text_from ''u'' ''weight loss''),
               (env_ok (Some amina), text_from ''u'' ''3'')] emptyStore)"

definition atMealsFrequencyStep :: store where
  "atMealsFrequencyStep =
     fst (run [(env_ok (Some amina), text_from ''u'' ''/meals''),
               (env_ok (Some amina), text_from ''u'' ''vegan''),
               (env_ok (Some amina), text_from ''u'' ''none'')] emptyStore)"

definition greeted :: store where
  "greeted = fst (handleMessage (env_ok None) (text_from ''u'' ''hello'') emptyStore)"

section \<open>Branches of the router\<close>

text \<open>The branches of \<open>handleMessage\<close>, named after the comments that head them in
  the source, and the code each one runs.\<close>

datatype branch =
  B_Empty | B_NewUser | B_Assessment | B_Consent | B_AssessmentChoice | B_Onboarding
  | B_Command | B_Fitness | B_Meals | B_Cycle | B_HealthQuestion | B_Fallback

definition dispatch ::
    "branch \<Rightarrow> env \<Rightarrow> phone \<Rightarrow> user_row option \<Rightarrow> string \<Rightarrow> store \<Rightarrow> store \<times> action list" where
  "dispatch b e p user body st =
     (case b of
        B_Empty \<Rightarrow> (st, [Reply p (Text ''Please send a valid message.'')])
      | B_NewUser \<Rightarrow> handleNewUserGreeting p st
      | B_Assessment \<Rightarrow> handleAssessmentResponse e p body st
      | B_Consent \<Rightarrow> handleConsentResponse p body st
      | B_AssessmentChoice \<Rightarrow> handleAssessmentChoice e p body st
      | B_Onboarding \<Rightarrow> handleOnboarding e p body st
      | B_Command \<Rightarrow> handleCommand e p user body st
      | B_Fitness \<Rightarrow> handleFitness e p body st
      | B_Meals \<Rightarrow> handleMeals e p body st
      | B_Cycle \<Rightarrow> handleCycle e p body st
      | B_HealthQuestion \<Rightarrow> handleHealthQuestion e p body st
      | B_Fallback \<Rightarrow> (st, [Reply p M_HowCanIHelp]))"

text \<open>An ordered list of rules, each a branch with its condition; the first rule
  whose condition holds names the branch (first match wins).\<close>

definition firstMatch :: "(branch \<times> bool) list \<Rightarrow> branch" where
  "firstMatch rs = (case filter snd rs of [] \<Rightarrow> B_Fallback | r # _ \<Rightarrow> fst r)"

text \<open>The guard of the new-user branch as the source writes it.\<close>

definition newUserGuard :: "user_row option \<Rightarrow> session \<Rightarrow> string \<Rightarrow> bool" where
  "newUserGuard user s body =
     (user = None \<and> onboarding s = None \<and> \<not> awaitingConsent s \<and> \<not> startsWith body ''/'')"

text \<open>
  Follows the specification's words, not the source: the ten rules of its router
  contract in their order.  A session has no active flow when it is in none of the
  flow states the specification lists.
\<close>

definition noActiveFlow :: "session \<Rightarrow> bool" where
  "noActiveFlow s =
     (\<not> awaitingConsent s \<and> onboarding s = None \<and> \<not> awaitingAssessmentChoice s
      \<and> assessment s = None \<and> fitness s = None \<and> meals s = None \<and> cycle s = None)"

definition spec_rules :: "user_row option \<Rightarrow> session \<Rightarrow> string \<Rightarrow> (branch \<times> bool) list" where
  "spec_rules user s body =
     [(B_Empty, body = []),
      (B_NewUser, user = None \<and> noActiveFlow s \<and> \<not> startsWith body ''/''),
      (B_Assessment, assessment s \<noteq> None),
      (B_Consent, awaitingConsent s),
      (B_AssessmentChoice, awaitingAssessmentChoice s),
      (B_Onboarding, onboarding s \<noteq> None),
      (B_Command, startsWith body ''/''),
      (B_Fitness, fitness s \<noteq> None),
      (B_Meals, meals s \<noteq> None),
      (B_Cycle, cycle s \<noteq> None),
      (B_HealthQuestion, length body > 10 \<and> hasHealthKeyword body),
      (B_Fallback, True)]"

definition spec_route :: "user_row option \<Rightarrow> session \<Rightarrow> string \<Rightarrow> branch" where
  "spec_route user s body = firstMatch (spec_rules user s body)"

text \<open>The same list with the second rule's condition replaced by the guard of the
  source.\<close>

definition code_rules :: "user_row option \<Rightarrow> session \<Rightarrow> string \<Rightarrow> (branch \<times> bool) list" where
  "code_rules user s body = (spec_rules user s body)[1 := (B_NewUser, newUserGuard user s body)]"

definition route :: "user_row option \<Rightarrow> session \<Rightarrow> string \<Rightarrow> branch" where
  "route user s body = firstMatch (code_rules user s body)"

text \<open>The condition under which the step a session is at refuses the input, for
  the branch that handles it.\<close>

definition stepRejects :: "branch \<Rightarrow> session \<Rightarrow> string \<Rightarrow> bool" where
  "stepRejects b s body =
     (case b of
        B_Onboarding \<Rightarrow>
          (case onboarding s of None \<Rightarrow> False
           | Some f \<Rightarrow>
               (case ob_step f of
                  OB_age \<Rightarrow> invalidAge body | OB_sex \<Rightarrow> invalidSex body
                | OB_height \<Rightarrow> invalidHeight body | OB_weight \<Rightarrow> invalidWeight body
                | _ \<Rightarrow> False))
      | B_Assessment \<Rightarrow>
          (case assessment s of None \<Rightarrow> False
           | Some f \<Rightarrow>
               (case as_step f of
                  AS_smoking \<Rightarrow> invalidSmoking body
                | AS_complete \<Rightarrow> False
                | _ \<Rightarrow> parseInt body = None))
      | B_Fitness \<Rightarrow>
          (case fitness s of None \<Rightarrow> False
           | Some f \<Rightarrow> fi_step f = FI_frequency \<and> \<not> isOneToSeven body)
      | B_Meals \<Rightarrow>
          (case meals s of None \<Rightarrow> False
           | Some f \<Rightarrow> me_step f = ME_frequency \<and> \<not> isThreeToSix body)
      | B_Cycle \<Rightarrow>
          (case cycle s of None \<Rightarrow> False
           | Some f \<Rightarrow>
               (case cy_step f of
                  CY_last_period \<Rightarrow> \<not> isDateForm body
                | CY_length \<Rightarrow> \<not> isCycleLength body))
      | _ \<Rightarrow> False)"

section \<open>Reachable stores\<close>

text \<open>The stores the process can be in: it starts with both maps empty, and a
  message, a reminder timer that fires and the hourly sweep each move it on.  Each
  of them runs to its end before the next begins; two handlers interleaved at their
  \<open>await\<close>s are not modelled.\<close>

inductive reachable :: "store \<Rightarrow> bool" where
  initial: "reachable emptyStore"
| message: "reachable st \<Longrightarrow> reachable (fst (handleMessage e m st))"
| timer: "reachable st \<Longrightarrow> reachable (fst (reminderCallback p st))"
| swept: "reachable st \<Longrightarrow> reachable (sweep t st)"

text \<open>What holds of every session of a reachable store: \<open>lastActivity\<close> has never
  been assigned, and a fitness or meals flow past its first step has the answer of
  that step.\<close>

definition session_ok :: "session \<Rightarrow> bool" where
  "session_ok s =
     (lastActivity s = None
      \<and> (case fitness s of None \<Rightarrow> True
          | Some f \<Rightarrow> fi_step f = FI_goals \<or> goals (fi_data f) \<noteq> None)
      \<and> (case meals s of None \<Rightarrow> True
          | Some f \<Rightarrow> me_step f = ME_preferences \<or> preferences (me_data f) \<noteq> None))"

definition store_ok :: "store \<Rightarrow> bool" where
  "store_ok st = (\<forall>p. session_ok (getState st p))"




section \<open>Properties of the health score\<close>

lemma calculateHealthScore_full:
  "calculateHealthScore
     \<lparr>sleepHours = Some sl, waterIntake = Some wa, exerciseDays = Some ex,
      stressLevel = Some st, dietQuality = Some di, smokes = Some sm,
      alcoholDrinks = Some al\<rparr> =
   max 0 (100 - (if sl < 7 then 10 else 0) - (if wa < 8 then 5 else 0)
              - (if ex < 3 then 15 else 0) - (if st > 7 then 10 else 0)
              - (if di < 5 then 10 else 0) - (if sm = ''yes'' then 20 else 0)
              - (if al > 7 then 5 else 0))"
  by (simp add: calculateHealthScore_def js_lt_def js_gt_def Let_def)

lemma calculateHealthScore_range:
  "0 \<le> calculateHealthScore d \<and> calculateHealthScore d \<le> 100"
  by (simp add: calculateHealthScore_def Let_def)

text \<open>
  Claim C4.  The health score is 100 less 10 for fewer than 7 hours of sleep, 5 for
  fewer than 8 glasses of water, 15 for fewer than 3 days of exercise, 10 for a stress
  level above 7, 10 for a diet quality below 5, 20 for a smoker and 5 for more than 7
  drinks, and never less than 0; so it lies between 0 and 100.  The answers 5, 10, 1,
  9, 3, yes, 10 score 30, and the recommendation for 30 is the one for scores
  below 60.
\<close>

theorem calculateHealthScore_deductions:
  "calculateHealthScore
     \<lparr>sleepHours = Some sl, waterIntake = Some wa, exerciseDays = Some ex,
      stressLevel = Some st, dietQuality = Some di, smokes = Some sm,
      alcoholDrinks = Some al\<rparr> =
   max 0 (100 - (if sl < 7 then 10 else 0) - (if wa < 8 then 5 else 0)
              - (if ex < 3 then 15 else 0) - (if st > 7 then 10 else 0)
              - (if di < 5 then 10 else 0) - (if sm = ''yes'' then 20 else 0)
              - (if al > 7 then 5 else 0))
   \<and> 0 \<le> calculateHealthScore d \<and> calculateHealthScore d \<le> 100
   \<and> calculateHealthScore
        \<lparr>sleepHours = Some 5, waterIntake = Some 10, exerciseDays = Some 1,
         stressLevel = Some 9, dietQuality = Some 3, smokes = Some ''yes'',
         alcoholDrinks = Some 10\<rparr> = 30
   \<and> getHealthRecommendations 30
       = ''Consider lifestyle changes. Focus on sleep, diet and exercise.''"
proof -
  have "getHealthRecommendations 30
          = ''Consider lifestyle changes. Focus on sleep, diet and exercise.''"
    by (simp add: getHealthRecommendations_def)
  then show ?thesis
    using calculateHealthScore_full [of sl wa ex st di sm al] calculateHealthScore_range [of d]
      calculateHealthScore_full [of 5 10 1 9 3 "''yes''" 10]
    by simp
qed

section \<open>Properties of the date arithmetic\<close>

lemma DayFromYear_between:
  "400 * DayFromYear y < 146097 * y - 287810497"
  "146097 * y - 287811697 < 400 * DayFromYear y"
proof -
  define a where "a = (y - 1969) div 4"
  define b where "b = (y - 1901) div 100"
  define c where "c = (y - 1601) div 400"
  have a: "a * 4 \<le> y - 1969" "y - 1969 < a * 4 + 4"
    by (simp_all add: a_def)
  have b: "b * 100 \<le> y - 1901" "y - 1901 < b * 100 + 100"
    by (simp_all add: b_def)
  have c: "c * 400 \<le> y - 1601" "y - 1601 < c * 400 + 400"
    by (simp_all add: c_def)
  have d: "DayFromYear y = 365 * y - 719050 + a - b + c"
    by (simp add: DayFromYear_def a_def b_def c_def)
  show "400 * DayFromYear y < 146097 * y - 287810497"
    using a b c d by linarith
  show "146097 * y - 287811697 < 400 * DayFromYear y"
    using a b c d by linarith
qed

text \<open>\<open>YearFromTime\<close> is the year the ECMAScript specification defines: the one
  whose first day is not after the day of \<open>t\<close> while the next year's is.\<close>

lemma YearFromTime_correct:
  "DayFromYear (YearFromTime t) \<le> Day t \<and> Day t < DayFromYear (YearFromTime t + 1)"
proof -
  define d where "d = Day t"
  define q where "q = (d * 400) div 146097"
  define y0 where "y0 = 1970 + q"
  have q: "q * 146097 \<le> d * 400" "d * 400 < q * 146097 + 146097"
    by (simp_all add: q_def)
  have lo: "DayFromYear (y0 - 1) \<le> d"
    using DayFromYear_between(1) [of "y0 - 1"] q by (simp add: y0_def)
  have hi: "d < DayFromYear (y0 + 2)"
    using DayFromYear_between(2) [of "y0 + 2"] q by (simp add: y0_def)
  have y: "YearFromTime t =
      (if d < DayFromYear y0 then y0 - 1 else if DayFromYear (y0 + 1) \<le> d then y0 + 1 else y0)"
    by (simp add: YearFromTime_def Let_def d_def y0_def q_def)
  show ?thesis
    unfolding y d_def [symmetric] using lo hi by (simp add: add.commute)
qed

lemma MonthFromTime_range: "0 \<le> MonthFromTime t \<and> MonthFromTime t \<le> 11"
  by (simp add: MonthFromTime_def Let_def)

lemma MakeDay_DateFromTime:
  "MakeDay (YearFromTime t) (MonthFromTime t) (DateFromTime t + n) = Day t + n"
proof -
  have m: "MonthFromTime t div 12 = 0" "MonthFromTime t mod 12 = MonthFromTime t"
    using MonthFromTime_range [of t] by simp_all
  show ?thesis
    by (simp add: MakeDay_def Let_def m DateFromTime_def DayWithinYear_def InLeapYear_def)
qed

lemma setDate_getDate:
  "setDate tza (Some u) (js_add (getDate tza (Some u)) (Some n)) = TimeClip (u + n * msPerDay)"
proof -
  have "MakeDate (Day (u + tza) + n) (TimeWithinDay (u + tza)) = u + tza + n * msPerDay"
    by (simp add: MakeDate_def Day_def TimeWithinDay_def algebra_simps)
  then show ?thesis
    by (simp add: setDate_def getDate_def js_add_def Let_def MakeDay_DateFromTime)
qed

lemma newDate_0101: "newDate (Some ''2024-01-01'') = Some 1704067200000"
  by code_simp
lemma newDate_0110: "newDate (Some ''2024-01-10'') = Some 1704844800000"
  by code_simp
lemma newDate_0115: "newDate (Some ''2024-01-15'') = Some 1705276800000"
  by code_simp
lemma newDate_0116: "newDate (Some ''2024-01-16'') = Some 1705363200000"
  by code_simp
lemma newDate_0129: "newDate (Some ''2024-01-29'') = Some 1706486400000"
  by code_simp
lemma parseInt_28: "parseInt ''28'' = Some 28"
  by code_simp

lemma cycle_example_dates:
  "nextPeriodDate tza \<lparr>lastPeriod = Some ''2024-01-01'', cycleLength = Some ''28''\<rparr>
     = newDate (Some ''2024-01-29'')
   \<and> ovulationDay tza (newDate (Some ''2024-01-01'')) 28 = newDate (Some ''2024-01-15'')
   \<and> fertileWindowDates tza (newDate (Some ''2024-01-01'')) 28
       = (newDate (Some ''2024-01-10''), newDate (Some ''2024-01-16''))"
  by (simp add: nextPeriodDate_def ovulationDay_def fertileWindowDates_def cycleLengthOr28_def
      newDate_0101 newDate_0110 newDate_0115 newDate_0116 newDate_0129 parseInt_28
      setDate_getDate TimeClip_def msPerDay_def Let_def)



lemma digitValue_digit: "isDigit c \<Longrightarrow> digitValue c = Some (of_char c - 48)"
  by (simp add: isDigit_def digitValue_def Let_def)

lemma digit_step:
  "isDigit c \<Longrightarrow> (case digitValue c of None \<Rightarrow> 0 | Some v \<Rightarrow> v) \<le> (9::nat)"
  by (auto simp: isDigit_def digitValue_def Let_def)

lemma foldl_digits_bound:
  "list_all isDigit z \<Longrightarrow>
   foldl (\<lambda>a c. a * 10 + (case digitValue c of None \<Rightarrow> 0 | Some v \<Rightarrow> v)) a z < (a + 1) * 10 ^ length z"
proof (induction z arbitrary: a)
  case Nil
  then show ?case by simp
next
  case (Cons c cs)
  let ?v = "case digitValue c of None \<Rightarrow> 0 | Some v \<Rightarrow> v"
  have v: "?v \<le> 9" using Cons.prems digit_step [of c] by simp
  have "foldl (\<lambda>a c. a * 10 + (case digitValue c of None \<Rightarrow> 0 | Some v \<Rightarrow> v)) (a * 10 + ?v) cs
          < (a * 10 + ?v + 1) * 10 ^ length cs"
    using Cons.IH [of "a * 10 + ?v"] Cons.prems by simp
  also have "\<dots> \<le> (a * 10 + 10) * 10 ^ length cs"
    using v by (intro mult_right_mono) simp_all
  finally show ?case by (simp add: algebra_simps)
qed

lemma radixValue_bound: "list_all isDigit z \<Longrightarrow> radixValue 10 z < 10 ^ length z"
  using foldl_digits_bound [of z 0] by (simp add: radixValue_def)

lemma DayFromYear_bounds:
  assumes "0 \<le> y" "y \<le> 9999"
  shows "- 720000 \<le> DayFromYear y \<and> DayFromYear y \<le> 3000000"
proof -
  define a where "a = (y - 1969) div 4"
  define b where "b = (y - 1901) div 100"
  define c where "c = (y - 1601) div 400"
  have a: "a * 4 \<le> y - 1969" "y - 1969 < a * 4 + 4"
    by (simp_all add: a_def)
  have b: "b * 100 \<le> y - 1901" "y - 1901 < b * 100 + 100"
    by (simp_all add: b_def)
  have c: "c * 400 \<le> y - 1601" "y - 1601 < c * 400 + 400"
    by (simp_all add: c_def)
  have d: "DayFromYear y = 365 * y - 719050 + a - b + c"
    by (simp add: DayFromYear_def a_def b_def c_def)
  have "- 720000 \<le> DayFromYear y"
    using assms a b c d by linarith
  moreover have "DayFromYear y \<le> 3000000"
    using assms a b c d by linarith
  ultimately show ?thesis by simp
qed

lemma monthStart_bounds:
  assumes "0 \<le> m" "m \<le> 11" "0 \<le> l" "l \<le> 1"
  shows "0 \<le> monthStart m l \<and> monthStart m l \<le> 335"
proof -
  have "m = 0 \<or> m = 1 \<or> m = 2 \<or> m = 3 \<or> m = 4 \<or> m = 5 \<or> m = 6 \<or> m = 7 \<or> m = 8
        \<or> m = 9 \<or> m = 10 \<or> m = 11"
    using assms by arith
  then show ?thesis
    using assms(3,4) by (elim disjE) (simp_all add: monthStart_def)
qed

lemma newDate_bounds:
  assumes "newDate (Some s) = Some u"
  shows "\<bar>u\<bar> \<le> 300000000000000"
proof -
  from assms have f: "isDateForm s"
    by (simp add: newDate_def split: if_splits)
  define y where "y = int (radixValue 10 (take 4 s))"
  define m where "m = int (radixValue 10 (take 2 (drop 5 s)))"
  define d where "d = int (radixValue 10 (drop 8 s))"
  from f have "radixValue 10 (take 4 s) < 10 ^ length (take 4 s)"
    by (intro radixValue_bound) (simp add: isDateForm_def)
  with f have y: "0 \<le> y" "y \<le> 9999"
    by (simp_all add: y_def isDateForm_def)
  from assms f have md: "1 \<le> m" "m \<le> 12" "1 \<le> d" "d \<le> 31"
    and u: "TimeClip (MakeDate (MakeDay y (m - 1) d) 0) = Some u"
    by (simp_all add: newDate_def Let_def y_def m_def d_def split: if_splits)
  have mm: "(m - 1) div 12 = 0" "(m - 1) mod 12 = m - 1"
    using md by simp_all
  let ?l = "if DaysInYear y = 366 then 1 else 0 :: int"
  have k: "MakeDay y (m - 1) d = DayFromYear y + monthStart (m - 1) ?l + d - 1"
    by (simp add: MakeDay_def Let_def mm)
  have ms: "0 \<le> monthStart (m - 1) ?l \<and> monthStart (m - 1) ?l \<le> 335"
    using md by (intro monthStart_bounds) simp_all
  have lo: "- 720000 \<le> MakeDay y (m - 1) d"
    using DayFromYear_bounds [OF y] ms md unfolding k by linarith
  have hi: "MakeDay y (m - 1) d \<le> 3000400"
    using DayFromYear_bounds [OF y] ms md unfolding k by linarith
  from u have "u = MakeDay y (m - 1) d * msPerDay"
    by (simp add: TimeClip_def MakeDate_def split: if_splits)
  with lo hi show ?thesis by (simp add: msPerDay_def abs_le_iff)
qed

lemma isDigit_facts:
  assumes "isDigit c"
  shows "\<not> isWhiteSpace c" "c \<noteq> CHR ''-''" "c \<noteq> CHR ''+''" "c \<noteq> CHR ''x''" "c \<noteq> CHR ''X''"
    "isRadixDigit 10 c"
  using assms by (auto simp: isDigit_def isWhiteSpace_def isRadixDigit_def digitValue_def Let_def)

lemma parseInt_digits:
  assumes "isDigits s"
  shows "parseInt s = Some (int (radixValue 10 s))"
proof -
  from assms obtain c cs where s: "s = c # cs" and c: "isDigit c" and cs: "list_all isDigit cs"
    by (cases s) (auto simp: isDigits_def)
  have ws: "dropWhile isWhiteSpace s = s"
    using s c isDigit_facts(1) by simp
  have sign: "take (Suc 0) s \<noteq> ''-''" "take (Suc 0) s \<noteq> ''+''"
    using s c isDigit_facts(2,3) by auto
  have hex: "take 2 s \<noteq> ''0x''" "take 2 s \<noteq> ''0X''"
    using s cs isDigit_facts(4,5) by (cases cs; auto)+
  have tw: "takeWhile (isRadixDigit 10) s = s"
    using assms isDigit_facts(6) by (auto simp: isDigits_def list_all_iff)
  have ne: "s \<noteq> []"
    using s by simp
  show ?thesis
    by (simp add: parseInt_def Let_def ws sign hex tw ne)
qed

lemma radixValue_two:
  "isDigit a \<Longrightarrow> isDigit b \<Longrightarrow>
   radixValue 10 [a, b] = ((of_char a :: nat) - 48) * 10 + ((of_char b :: nat) - 48)"
  by (simp add: radixValue_def digitValue_digit)

lemma isCycleLength_parseInt:
  assumes "isCycleLength s"
  shows "\<exists>n. parseInt s = Some n \<and> 21 \<le> n \<and> n \<le> 35"
proof -
  from assms have "length s = 2"
    by (simp add: isCycleLength_def)
  then obtain a b where s: "s = [a, b]"
    by (cases s; cases "tl s") simp_all
  from assms s consider
    (twenties) "a = CHR ''2''" "49 \<le> (of_char b :: nat)" "(of_char b :: nat) \<le> 57"
    | (thirties) "a = CHR ''3''" "48 \<le> (of_char b :: nat)" "(of_char b :: nat) \<le> 53"
    unfolding isCycleLength_def charBetween_def by fastforce
  then have "isDigits s \<and> 21 \<le> radixValue 10 s \<and> radixValue 10 s \<le> 35"
  proof cases
    case twenties
    then have d: "isDigit a" "isDigit b"
      by (simp_all add: isDigit_def)
    have "radixValue 10 s = ((of_char a :: nat) - 48) * 10 + ((of_char b :: nat) - 48)"
      unfolding s using d by (rule radixValue_two)
    moreover have "isDigits s"
      using d by (simp add: s isDigits_def)
    ultimately show ?thesis
      using twenties by (simp; arith)
  next
    case thirties
    then have d: "isDigit a" "isDigit b"
      by (simp_all add: isDigit_def)
    have "radixValue 10 s = ((of_char a :: nat) - 48) * 10 + ((of_char b :: nat) - 48)"
      unfolding s using d by (rule radixValue_two)
    moreover have "isDigits s"
      using d by (simp add: s isDigits_def)
    ultimately show ?thesis
      using thirties by (simp; arith)
  qed
  then show ?thesis
    using parseInt_digits [of s] by simp
qed


lemma js_add_assoc:
  "js_add (js_add (getDate tza d) (Some a)) (Some b) = js_add (getDate tza d) (Some (a + b))"
  by (simp add: js_add_def getDate_def split: option.splits)

lemma setDate_None: "setDate tza None n = None"
  by (simp add: setDate_def)

lemma setDate_small:
  assumes "\<bar>u\<bar> \<le> 400000000000000" "\<bar>n\<bar> \<le> 100"
  shows "setDate tza (Some u) (js_add (getDate tza (Some u)) (Some n)) = Some (u + n * msPerDay)"
proof -
  have "\<bar>n * msPerDay\<bar> \<le> 100 * msPerDay"
    using assms(2) by (simp add: abs_mult msPerDay_def)
  then have "\<bar>u + n * msPerDay\<bar> \<le> 8640000000000000"
    using assms(1) by (simp add: msPerDay_def)
  then show ?thesis
    by (simp add: setDate_getDate TimeClip_def)
qed

lemma cycleLength_accepted:
  assumes "isCycleLength len"
  obtains c where "parseInt len = Some c" "21 \<le> c" "c \<le> 35" "cycleLengthOr28 (Some len) = c"
proof -
  from isCycleLength_parseInt [OF assms] obtain c where
    c: "parseInt len = Some c" "21 \<le> c" "c \<le> 35" by blast
  then have "cycleLengthOr28 (Some len) = c"
    by (simp add: cycleLengthOr28_def)
  with c show ?thesis by (rule that)
qed

lemma windows_Some:
  assumes u: "\<bar>u\<bar> \<le> 300000000000000" and c: "21 \<le> c" "c \<le> 35"
    and lp: "newDate lp = Some u" and len: "parseInt len = Some c"
  shows "ovulationDay tza (Some u) c = Some (u + (c - 14) * msPerDay)"
    and "fertileWindowDates tza (Some u) c
           = (Some (u + (c - 14) * msPerDay - 5 * msPerDay), Some (u + (c - 14) * msPerDay + 1 * msPerDay))"
    and "db_fertileWindowDates tza lp (Some len)
           = (Some (u + (c - 14) * msPerDay - 5 * msPerDay), Some (u + (c - 14) * msPerDay + 1 * msPerDay))"
proof -
  let ?ov = "u + (c - 14) * msPerDay"
  let ?s = "?ov + (- 5) * msPerDay"
  have ov: "setDate tza (Some u) (js_add (getDate tza (Some u)) (Some (c - 14))) = Some ?ov"
    using u c by (intro setDate_small) simp_all
  have b: "\<bar>?ov\<bar> \<le> 400000000000000"
    using u c by (simp add: msPerDay_def)
  have st: "setDate tza (Some ?ov) (js_add (getDate tza (Some ?ov)) (Some (- 5))) = Some ?s"
    using b by (intro setDate_small) simp_all
  have en: "setDate tza (Some ?ov) (js_add (getDate tza (Some ?ov)) (Some 1)) = Some (?ov + 1 * msPerDay)"
    using b by (intro setDate_small) simp_all
  have b2: "\<bar>?s\<bar> \<le> 400000000000000"
    using u c by (simp add: msPerDay_def)
  have en2: "setDate tza (Some ?s) (js_add (getDate tza (Some ?s)) (Some 6)) = Some (?s + 6 * msPerDay)"
    using b2 by (intro setDate_small) simp_all
  show "ovulationDay tza (Some u) c = Some ?ov"
    by (simp add: ovulationDay_def ov)
  show "fertileWindowDates tza (Some u) c = (Some (?ov - 5 * msPerDay), Some (?ov + 1 * msPerDay))"
    using st en by (simp add: fertileWindowDates_def ovulationDay_def ov Let_def)
  show "db_fertileWindowDates tza lp (Some len) = (Some (?ov - 5 * msPerDay), Some (?ov + 1 * msPerDay))"
    using lp len ov st en2
    by (simp add: db_fertileWindowDates_def parseIntArg_def Let_def js_add_assoc)
qed

lemma windows_None:
  "fertileWindowDates tza None c = (None, None)"
  "newDate lp = None \<Longrightarrow> db_fertileWindowDates tza lp len = (None, None)"
  by (simp_all add: fertileWindowDates_def ovulationDay_def db_fertileWindowDates_def
      setDate_None Let_def)

lemma fertile_windows_agree_aux:
  assumes "isCycleLength len"
  shows "db_fertileWindowDates tza lastP (Some len)
           = fertileWindowDates tza (newDate lastP) (cycleLengthOr28 (Some len))
         \<and> (\<forall>ov. ovulationDay tza (newDate lastP) (cycleLengthOr28 (Some len)) = Some ov \<longrightarrow>
               db_fertileWindowDates tza lastP (Some len)
                 = (Some (ov - 5 * msPerDay), Some (ov + 1 * msPerDay)))"
proof -
  from assms obtain c where c: "parseInt len = Some c" "21 \<le> c" "c \<le> 35"
    "cycleLengthOr28 (Some len) = c"
    by (rule cycleLength_accepted)
  show ?thesis
  proof (cases "newDate lastP")
    case None
    then show ?thesis
      by (simp add: windows_None ovulationDay_def setDate_None)
  next
    case (Some u)
    then obtain s where "lastP = Some s"
      by (cases lastP) (simp_all add: newDate_def)
    with Some have u: "\<bar>u\<bar> \<le> 300000000000000"
      using newDate_bounds by simp
    show ?thesis
      using windows_Some [OF u c(2,3) Some c(1), of tza]
      by (simp add: Some c(4))
  qed
qed





lemma cal_0110:
  "YearFromTime 1704844800000 = 2024" "MonthFromTime 1704844800000 = 0"
  "DateFromTime 1704844800000 = 10" "TimeWithinDay 1704844800000 = 0"
  "WeekDay 1704844800000 = 3"
  by code_simp+

lemma cal_0116:
  "YearFromTime 1705363200000 = 2024" "MonthFromTime 1705363200000 = 0"
  "DateFromTime 1705363200000 = 16" "TimeWithinDay 1705363200000 = 0"
  "WeekDay 1705363200000 = 2"
  by code_simp+

lemma pads:
  "padZero 4 2024 = ''2024''" "padZero 2 (Suc 0) = ''01''" "padZero 2 10 = ''10''"
  "padZero 2 16 = ''16''" "padZero 2 29 = ''29''" "padZero 2 0 = ''00''" "padZero 3 0 = ''000''"
  by code_simp+








text \<open>
  Claim C7, as amended.  For every last-period argument and every cycle length the
  cycle flow accepts, the record store's fertile window and the router's are the same
  two instants: both start five days before ovulation and end one day after it.
\<close>

theorem fertile_windows_agree:
  assumes "isCycleLength len"
  shows "db_fertileWindowDates tza lastP (Some len)
           = fertileWindowDates tza (newDate lastP) (cycleLengthOr28 (Some len))
         \<and> (\<forall>ov. ovulationDay tza (newDate lastP) (cycleLengthOr28 (Some len)) = Some ov \<longrightarrow>
               db_fertileWindowDates tza lastP (Some len)
                 = (Some (ov - 5 * msPerDay), Some (ov + 1 * msPerDay)))"
  using assms by (rule fertile_windows_agree_aux)

lemma isCycleLength_28: "isCycleLength ''28''"
  by (simp add: isCycleLength_def charBetween_def)

text \<open>The agreement at the example input.\<close>

theorem fertile_windows_agree_witness:
  "isCycleLength ''28''
   \<and> db_fertileWindowDates 0 (Some ''2024-01-01'') (Some ''28'')
       = fertileWindowDates 0 (newDate (Some ''2024-01-01'')) (cycleLengthOr28 (Some ''28''))
   \<and> ovulationDay 0 (newDate (Some ''2024-01-01'')) (cycleLengthOr28 (Some ''28''))
       = Some 1705276800000
   \<and> db_fertileWindowDates 0 (Some ''2024-01-01'') (Some ''28'')
       = (Some (1705276800000 - 5 * msPerDay), Some (1705276800000 + 1 * msPerDay))"
proof -
  have ov: "ovulationDay 0 (newDate (Some ''2024-01-01'')) (cycleLengthOr28 (Some ''28''))
          = Some 1705276800000"
    using cycle_example_dates [of 0]
    by (simp add: cycleLengthOr28_def parseInt_28 newDate_0115)
  note t = fertile_windows_agree [OF isCycleLength_28, of 0 "Some ''2024-01-01''"]
  from t have a: "db_fertileWindowDates 0 (Some ''2024-01-01'') (Some ''28'')
       = fertileWindowDates 0 (newDate (Some ''2024-01-01'')) (cycleLengthOr28 (Some ''28''))"
    by (rule conjunct1)
  from t [THEN conjunct2, THEN spec, THEN mp, OF ov]
  have b: "db_fertileWindowDates 0 (Some ''2024-01-01'') (Some ''28'')
       = (Some (1705276800000 - 5 * msPerDay), Some (1705276800000 + 1 * msPerDay))" .
  show ?thesis
    by (intro conjI isCycleLength_28 a ov b)
qed

lemma iso_examples:
  "toISOString (Some 1704844800000) = Some ''2024-01-10T00:00:00.000Z''"
  "toISOString (Some 1705363200000) = Some ''2024-01-16T00:00:00.000Z''"
  by (simp_all add: toISOString_def Let_def cal_0110 cal_0116 pads)

lemma newDate_0121: "newDate (Some ''2024-01-21'') = Some 1705795200000"
  by code_simp

lemma db_dates_example:
  "db_fertileWindowDates 0 (Some ''2024-01-01'') (Some ''28'')
     = (Some 1704844800000, Some 1705363200000)"
  using windows_Some(3) [of 1704067200000 28 "Some ''2024-01-01''" "''28''" 0]
  by (simp add: newDate_0101 parseInt_28 msPerDay_def)

text \<open>
  At the example input the record store's window ends on 2024-01-16, one day after
  the ovulation day 2024-01-15 and not six (2024-01-21), and it is the router's
  window.
\<close>

theorem db_window_end_counterexample:
  "db_fertileWindowDates 0 (Some ''2024-01-01'') (Some ''28'')
     = (newDate (Some ''2024-01-10''), newDate (Some ''2024-01-16''))
   \<and> fertileWindowDates 0 (newDate (Some ''2024-01-01'')) 28
     = (newDate (Some ''2024-01-10''), newDate (Some ''2024-01-16''))
   \<and> ovulationDay 0 (newDate (Some ''2024-01-01'')) 28 = newDate (Some ''2024-01-15'')
   \<and> snd (db_fertileWindowDates 0 (Some ''2024-01-01'') (Some ''28''))
     \<noteq> newDate (Some ''2024-01-21'')
   \<and> db_calculateFertileWindow 0 (Some ''2024-01-01'') (Some ''28'')
     = Some (''2024-01-10T00:00:00.000Z'', ''2024-01-16T00:00:00.000Z'')"
  using cycle_example_dates [of 0]
  by (simp add: db_calculateFertileWindow_def db_dates_example iso_examples cycleLengthOr28_def
      parseInt_28 newDate_0110 newDate_0116 newDate_0115 newDate_0121 newDate_0101)

section \<open>Properties of the router\<close>

subsection \<open>Routing and the invariant of reachable stores\<close>

lemma route_chain:
  "route user s body =
     (if body = [] then B_Empty
      else if newUserGuard user s body then B_NewUser
      else if assessment s \<noteq> None then B_Assessment
      else if awaitingConsent s then B_Consent
      else if awaitingAssessmentChoice s then B_AssessmentChoice
      else if onboarding s \<noteq> None then B_Onboarding
      else if startsWith body ''/'' then B_Command
      else if fitness s \<noteq> None then B_Fitness
      else if meals s \<noteq> None then B_Meals
      else if cycle s \<noteq> None then B_Cycle
      else if length body > 10 \<and> hasHealthKeyword body then B_HealthQuestion
      else B_Fallback)"
  by (simp add: route_def code_rules_def spec_rules_def firstMatch_def)

lemma handleMessage_empty:
  assumes "messageBody m = []"
  shows "handleMessage e m st = (st, [Reply (msg_from m) (Text ''Please send a valid message.'')])"
  using assms by (simp add: handleMessage_def Let_def)

lemma handleMessage_throws:
  assumes "messageBody m \<noteq> []" "getUserProfile_result e = Throws"
  shows "handleMessage e m st = (st, [])"
  using assms by (simp add: handleMessage_def Let_def)

lemma handleMessage_dispatch:
  assumes "messageBody m \<noteq> []" "getUserProfile_result e = Returns user"
  shows "handleMessage e m st
           = dispatch (route user (getState st (msg_from m)) (messageBody m)) e (msg_from m) user
               (messageBody m) st"
  using assms
  by (simp add: handleMessage_def Let_def route_chain dispatch_def newUserGuard_def)

lemma route_NewUser:
  "route user s body = B_NewUser \<longleftrightarrow> body \<noteq> [] \<and> newUserGuard user s body"
  by (simp add: route_chain)

lemma code_rules_differ:
  "code_rules user s body = (spec_rules user s body)[1 := (B_NewUser, newUserGuard user s body)]"
  by (simp add: code_rules_def)



lemma getState_setState:
  "getState (setState p f st) q = (if q = p then f (getState st p) else getState st q)"
  by (simp add: getState_def setState_def)

lemma getState_cleanup:
  "getState (cleanup p st) q = (if q = p then emptySession else getState st q)"
  by (simp add: getState_def cleanup_def clearReminder_def)

lemma getState_setReminder: "getState (setReminder p t st) q = getState st q"
  by (simp add: getState_def setReminder_def clearReminder_def Let_def)

lemma session_ok_empty: "session_ok emptySession"
  by (simp add: session_ok_def emptySession_def)

lemma store_ok_setState:
  "store_ok st \<Longrightarrow> session_ok (f (getState st p)) \<Longrightarrow> store_ok (setState p f st)"
  by (simp add: store_ok_def getState_setState)

lemma store_ok_cleanup: "store_ok st \<Longrightarrow> store_ok (cleanup p st)"
  by (simp add: store_ok_def getState_cleanup session_ok_empty)

lemma store_ok_setReminder: "store_ok st \<Longrightarrow> store_ok (setReminder p t st)"
  by (simp add: store_ok_def getState_setReminder)

lemma store_okD: "store_ok st \<Longrightarrow> session_ok (getState st p)"
  by (simp add: store_ok_def)

text \<open>Updates of fields that \<open>session_ok\<close> does not read.\<close>

lemma session_ok_other_fields:
  "session_ok s \<Longrightarrow> session_ok (s\<lparr>awaitingConsent := a\<rparr>)"
  "session_ok s \<Longrightarrow> session_ok (s\<lparr>onboarding := b\<rparr>)"
  "session_ok s \<Longrightarrow> session_ok (s\<lparr>onboardingComplete := c\<rparr>)"
  "session_ok s \<Longrightarrow> session_ok (s\<lparr>awaitingAssessmentChoice := d\<rparr>)"
  "session_ok s \<Longrightarrow> session_ok (s\<lparr>assessment := e\<rparr>)"
  "session_ok s \<Longrightarrow> session_ok (s\<lparr>lastAssessment := f\<rparr>)"
  "session_ok s \<Longrightarrow> session_ok (s\<lparr>reminderSent := g\<rparr>)"
  "session_ok s \<Longrightarrow> session_ok (s\<lparr>cycle := h\<rparr>)"
  "session_ok s \<Longrightarrow> session_ok (s\<lparr>fitness := None\<rparr>)"
  "session_ok s \<Longrightarrow> session_ok (s\<lparr>meals := None\<rparr>)"
  by (simp_all add: session_ok_def)

lemma session_ok_fitness:
  "session_ok s \<Longrightarrow> fi_step f = FI_goals \<or> goals (fi_data f) \<noteq> None \<Longrightarrow>
   session_ok (s\<lparr>fitness := Some f\<rparr>)"
  by (simp add: session_ok_def)

lemma session_ok_meals:
  "session_ok s \<Longrightarrow> me_step f = ME_preferences \<or> preferences (me_data f) \<noteq> None \<Longrightarrow>
   session_ok (s\<lparr>meals := Some f\<rparr>)"
  by (simp add: session_ok_def)

lemma ok_handleNewUserGreeting:
  "store_ok st \<Longrightarrow> store_ok (fst (handleNewUserGreeting p st))"
  by (simp add: handleNewUserGreeting_def store_ok_setState store_okD session_ok_other_fields)

lemma ok_handleConsentResponse:
  "store_ok st \<Longrightarrow> store_ok (fst (handleConsentResponse p body st))"
  by (simp add: handleConsentResponse_def Let_def store_ok_setState store_okD store_ok_cleanup
      session_ok_other_fields)

lemma ok_completeHealthAssessment:
  "store_ok st \<Longrightarrow> store_ok (fst (completeHealthAssessment e p st))"
  by (simp add: completeHealthAssessment_def Let_def store_ok_setState store_okD
      session_ok_other_fields split: option.splits)

lemma ok_askOrApologise:
  "store_ok st \<Longrightarrow> store_ok (fst (askOrApologise e p st))"
proof -
  assume ok: "store_ok st"
  show ?thesis
  proof (cases "assessment (getState st p)")
    case None
    then show ?thesis
      using ok by (simp add: askOrApologise_def askAssessmentQuestion_def)
  next
    case (Some a)
    then show ?thesis
      using ok ok_completeHealthAssessment [OF ok, of e p]
      by (cases "as_step a") (simp_all add: askOrApologise_def askAssessmentQuestion_def)
  qed
qed

lemma ok_assessmentAdvance:
  "store_ok st \<Longrightarrow> store_ok (fst (assessmentAdvance e p nxt d st))"
  by (simp add: assessmentAdvance_def ok_askOrApologise store_ok_setState store_okD
      session_ok_other_fields)

lemma ok_initiateHealthAssessment:
  assumes "store_ok st"
  shows "store_ok (fst (initiateHealthAssessment e p st))"
proof -
  let ?st1 = "setState p (\<lambda>s. s\<lparr>awaitingAssessmentChoice := False,
                 assessment := Some \<lparr>as_step = AS_sleep,
                   as_data = \<lparr>sleepHours = None, waterIntake = None, exerciseDays = None,
                              stressLevel = None, dietQuality = None, smokes = None,
                              alcoholDrinks = None\<rparr>\<rparr>\<rparr>) st"
  have 1: "store_ok ?st1"
    using assms by (simp add: store_ok_setState store_okD session_ok_other_fields)
  show ?thesis
  proof (cases "askAssessmentQuestion e p ?st1")
    case None
    then show ?thesis
      using 1 by (simp add: initiateHealthAssessment_def)
  next
    case (Some r)
    then have "askOrApologise e p ?st1 = r"
      by (simp add: askOrApologise_def)
    then have "store_ok (fst r)"
      using ok_askOrApologise [OF 1, of e p] by simp
    then show ?thesis
      using Some by (simp add: initiateHealthAssessment_def split_beta)
  qed
qed

lemma ok_handleAssessmentChoice:
  "store_ok st \<Longrightarrow> store_ok (fst (handleAssessmentChoice e p body st))"
  by (simp add: handleAssessmentChoice_def Let_def ok_initiateHealthAssessment
      scheduleReminder_def store_ok_setReminder)

lemma ok_handleAssessmentResponse:
  "store_ok st \<Longrightarrow> store_ok (fst (handleAssessmentResponse e p body st))"
  by (simp add: handleAssessmentResponse_def Let_def ok_assessmentAdvance store_ok_cleanup
      split: option.splits assessment_step.splits)

lemma ok_completeOnboarding:
  "store_ok st \<Longrightarrow> store_ok (fst (completeOnboarding e p d st))"
  by (simp add: completeOnboarding_def store_ok_setState store_okD session_ok_other_fields)

lemma ok_handleOnboarding:
  "store_ok st \<Longrightarrow> store_ok (fst (handleOnboarding e p body st))"
  by (simp add: handleOnboarding_def Let_def onboardingSet_def split_beta ok_completeOnboarding
      store_ok_setState store_okD session_ok_other_fields
      split: option.splits onboarding_step.splits)

lemma ok_handleCommand:
  "store_ok st \<Longrightarrow> store_ok (fst (handleCommand e p user body st))"
  by (simp add: handleCommand_def handleDiagnose_def Let_def split_beta ok_handleNewUserGreeting
      store_ok_setState store_okD session_ok_other_fields session_ok_fitness session_ok_meals
      split: option.splits)


lemma ok_handleFitness:
  assumes ok: "store_ok st"
  shows "store_ok (fst (handleFitness e p body st))"
proof (cases "fitness (getState st p)")
  case None
  then show ?thesis using ok by (simp add: handleFitness_def)
next
  case (Some f)
  have s: "session_ok (getState st p)"
    using ok by (rule store_okD)
  then have g: "fi_step f = FI_goals \<or> goals (fi_data f) \<noteq> None"
    using Some by (simp add: session_ok_def)
  show ?thesis
  proof (cases "fi_step f")
    case FI_goals
    then show ?thesis
      using Some ok s
      by (simp add: handleFitness_def Let_def storeFitness_def store_ok_setState session_ok_fitness)
  next
    case FI_frequency
    then show ?thesis
      using Some ok s g
      by (simp add: handleFitness_def Let_def storeFitness_def store_ok_setState session_ok_fitness)
  next
    case FI_equipment
    then show ?thesis
      using Some ok s g
      by (simp add: handleFitness_def Let_def storeFitness_def store_ok_setState session_ok_fitness
          session_ok_other_fields split: option.splits)
  qed
qed

lemma ok_handleMeals:
  assumes ok: "store_ok st"
  shows "store_ok (fst (handleMeals e p body st))"
proof (cases "meals (getState st p)")
  case None
  then show ?thesis using ok by (simp add: handleMeals_def)
next
  case (Some f)
  have s: "session_ok (getState st p)"
    using ok by (rule store_okD)
  then have g: "me_step f = ME_preferences \<or> preferences (me_data f) \<noteq> None"
    using Some by (simp add: session_ok_def)
  show ?thesis
  proof (cases "me_step f")
    case ME_preferences
    then show ?thesis
      using Some ok s
      by (simp add: handleMeals_def Let_def storeMeals_def store_ok_setState session_ok_meals)
  next
    case ME_allergies
    then show ?thesis
      using Some ok s g
      by (simp add: handleMeals_def Let_def storeMeals_def store_ok_setState session_ok_meals)
  next
    case ME_frequency
    then show ?thesis
      using Some ok s g
      by (simp add: handleMeals_def Let_def storeMeals_def store_ok_setState session_ok_meals
          session_ok_other_fields split: option.splits)
  qed
qed

lemma ok_handleCycle:
  "store_ok st \<Longrightarrow> store_ok (fst (handleCycle e p body st))"
  by (simp add: handleCycle_def Let_def storeCycle_def store_ok_setState store_okD
      session_ok_other_fields split: option.splits cycle_step.splits)

lemma ok_dispatch:
  "store_ok st \<Longrightarrow> store_ok (fst (dispatch b e p user body st))"
  by (cases b)
    (simp_all add: dispatch_def ok_handleNewUserGreeting ok_handleAssessmentResponse
      ok_handleConsentResponse ok_handleAssessmentChoice ok_handleOnboarding ok_handleCommand
      ok_handleFitness ok_handleMeals ok_handleCycle handleHealthQuestion_def)

lemma ok_handleMessage:
  assumes "store_ok st"
  shows "store_ok (fst (handleMessage e m st))"
proof (cases "messageBody m = []")
  case True
  then show ?thesis
    using assms by (simp add: handleMessage_empty)
next
  case False
  show ?thesis
  proof (cases "getUserProfile_result e")
    case (Returns user)
    then show ?thesis
      using False assms by (simp add: handleMessage_dispatch ok_dispatch)
  next
    case Throws
    then show ?thesis
      using False assms by (simp add: handleMessage_throws)
  qed
qed

lemma stale_ok: "session_ok s \<Longrightarrow> \<not> stale t s"
  by (simp add: session_ok_def stale_def)

lemma sweep_ok:
  assumes "store_ok st"
  shows "sweep t st = st"
proof -
  have n: "\<not> stale t s" if "states st p = Some s" for p s
    using store_okD [OF assms, of p] that by (simp add: getState_def stale_ok)
  have "(\<lambda>p. case states st p of None \<Rightarrow> None | Some s \<Rightarrow> if stale t s then None else Some s)
          = states st"
    by (rule ext) (simp add: n split: option.splits)
  moreover have "(\<lambda>p. case states st p of None \<Rightarrow> reminders st p
                        | Some s \<Rightarrow> if stale t s then None else reminders st p) = reminders st"
    by (rule ext) (simp add: n split: option.splits)
  ultimately show ?thesis
    by (simp add: sweep_def)
qed

lemma reachable_ok: "reachable st \<Longrightarrow> store_ok st"
proof (induction rule: reachable.induct)
  case initial
  show ?case
    by (simp add: store_ok_def getState_def emptyStore_def session_ok_empty)
next
  case (message st e m)
  then show ?case by (simp add: ok_handleMessage)
next
  case (timer st p)
  then show ?case
    by (simp add: reminderCallback_def store_ok_setState store_okD session_ok_other_fields)
next
  case (swept st t)
  then show ?case by (simp add: sweep_ok)
qed

subsection \<open>Precedence of the branches\<close>

text \<open>
  Claim C1, as amended.  An empty message gets the request for a valid message.
  Otherwise the profile is looked up first; a lookup that throws ends the handler
  with no reply and no change.  After a lookup that returns, exactly one branch runs:
  the first rule, in the order of the specification's list, whose condition holds,
  where the condition of the greeting of an unknown user is the guard of the source:
  no profile, no onboarding flow, not awaiting consent, and no leading command marker.
  The greeting fires exactly under that guard, whatever other flow is active.
\<close>

theorem router_precedence:
  "(messageBody m = [] \<longrightarrow>
      handleMessage e m st = (st, [Reply (msg_from m) (Text ''Please send a valid message.'')]))
   \<and> (messageBody m \<noteq> [] \<and> getUserProfile_result e = Throws \<longrightarrow> handleMessage e m st = (st, []))
   \<and> (messageBody m \<noteq> [] \<and> getUserProfile_result e = Returns user \<longrightarrow>
        handleMessage e m st
          = dispatch (firstMatch (code_rules user (getState st (msg_from m)) (messageBody m)))
              e (msg_from m) user (messageBody m) st)
   \<and> code_rules user s body
       = (spec_rules user s body)
           [1 := (B_NewUser, user = None \<and> onboarding s = None \<and> \<not> awaitingConsent s
                               \<and> \<not> startsWith body ''/'')]
   \<and> (firstMatch (code_rules user s body) = B_NewUser \<longleftrightarrow>
        body \<noteq> [] \<and> user = None \<and> onboarding s = None \<and> \<not> awaitingConsent s
        \<and> \<not> startsWith body ''/'')"
  using handleMessage_empty [of m e st] handleMessage_throws [of m e st]
    handleMessage_dispatch [of m e user st] route_NewUser [of user s body]
  by (simp add: route_def code_rules_def newUserGuard_def)

text \<open>A first message from an unknown number runs the greeting; a blank message
  runs the empty-input branch.\<close>

theorem router_precedence_witness:
  "messageBody (text_from ''u'' ''hello'') \<noteq> []
   \<and> getUserProfile_result (env_ok None) = Returns None
   \<and> firstMatch (code_rules None (getState emptyStore ''u'') (messageBody (text_from ''u'' ''hello'')))
       = B_NewUser
   \<and> handleMessage (env_ok None) (text_from ''u'' ''hello'') emptyStore
       = handleNewUserGreeting ''u'' emptyStore
   \<and> messageBody (text_from ''u'' ''  '') = []
   \<and> handleMessage (env_ok None) (text_from ''u'' ''  '') emptyStore
       = (emptyStore, [Reply ''u'' (Text ''Please send a valid message.'')])
   \<and> getUserProfile_result ((env_ok None)\<lparr>getUserProfile_result := Throws\<rparr>) = Throws
   \<and> handleMessage ((env_ok None)\<lparr>getUserProfile_result := Throws\<rparr>)
         (text_from ''u'' ''hello'') emptyStore = (emptyStore, [])"
proof -
  have b: "messageBody (text_from ''u'' ''hello'') \<noteq> []"
    by code_simp
  have u: "getUserProfile_result (env_ok None) = Returns None"
    by (simp add: env_ok_def)
  have r: "firstMatch (code_rules None (getState emptyStore ''u'')
             (messageBody (text_from ''u'' ''hello''))) = B_NewUser"
    by code_simp
  have e: "messageBody (text_from ''u'' ''  '') = []"
    by code_simp
  note t = router_precedence [of "text_from ''u'' ''hello''" "env_ok None" emptyStore None]
  from t b u r
  have h: "handleMessage (env_ok None) (text_from ''u'' ''hello'') emptyStore
       = handleNewUserGreeting ''u'' emptyStore"
    by (simp add: dispatch_def text_from_def)
  from router_precedence [of "text_from ''u'' ''  ''" "env_ok None" emptyStore] e
  have h2: "handleMessage (env_ok None) (text_from ''u'' ''  '') emptyStore
       = (emptyStore, [Reply ''u'' (Text ''Please send a valid message.'')])"
    by (simp add: text_from_def)
  have th: "getUserProfile_result ((env_ok None)\<lparr>getUserProfile_result := Throws\<rparr>) = Throws"
    by simp
  from router_precedence [of "text_from ''u'' ''hello''"
      "(env_ok None)\<lparr>getUserProfile_result := Throws\<rparr>" emptyStore] b th
  have h3: "handleMessage ((env_ok None)\<lparr>getUserProfile_result := Throws\<rparr>)
         (text_from ''u'' ''hello'') emptyStore = (emptyStore, [])"
    by simp
  show ?thesis
    by (intro conjI b u r h e h2 th h3)
qed

text \<open>
  An unknown user who has entered the fitness flow with \<open>/fit\<close> and then answers
  its first question has an active flow, so the specification's second rule does not
  apply and its list selects the fitness branch; the source runs the greeting and
  sets \<open>awaitingConsent\<close>.
\<close>

theorem greeting_in_active_flow_counterexample:
  "fitness (getState (fst (handleMessage (env_ok None) (text_from ''u'' ''/fit'') emptyStore)) ''u'')
     = Some \<lparr>fi_step = FI_goals, fi_data = \<lparr>goals = None, fit_frequency = None, equipment = None\<rparr>\<rparr>
   \<and> \<not> noActiveFlow
        (getState (fst (handleMessage (env_ok None) (text_from ''u'' ''/fit'') emptyStore)) ''u'')
   \<and> snd (handleMessage (env_ok None) (text_from ''u'' ''weight loss'')
           (fst (handleMessage (env_ok None) (text_from ''u'' ''/fit'') emptyStore)))
       = [Reply ''u'' M_Hello, Reply ''u'' M_Terms]
   \<and> awaitingConsent
        (getState (fst (handleMessage (env_ok None) (text_from ''u'' ''weight loss'')
           (fst (handleMessage (env_ok None) (text_from ''u'' ''/fit'') emptyStore)))) ''u'')
   \<and> route None
        (getState (fst (handleMessage (env_ok None) (text_from ''u'' ''/fit'') emptyStore)) ''u'')
        ''weight loss'' = B_NewUser
   \<and> spec_route None
        (getState (fst (handleMessage (env_ok None) (text_from ''u'' ''/fit'') emptyStore)) ''u'')
        ''weight loss'' = B_Fitness"
  by code_simp

subsection \<open>Entering a flow\<close>




subsection \<open>Refused input\<close>

lemma onboarding_rejects:
  "stepRejects B_Onboarding (getState st p) body \<Longrightarrow>
   \<exists>t. handleOnboarding e p body st = (st, [Reply p (Text t)])"
  by (auto simp: stepRejects_def handleOnboarding_def Let_def
      split: option.splits onboarding_step.splits)

lemma assessment_rejects:
  "stepRejects B_Assessment (getState st p) body \<Longrightarrow>
   \<exists>t. handleAssessmentResponse e p body st = (st, [Reply p (Text t)])"
  by (auto simp: stepRejects_def handleAssessmentResponse_def Let_def
      split: option.splits assessment_step.splits)

lemma fitness_rejects:
  "stepRejects B_Fitness (getState st p) body \<Longrightarrow>
   \<exists>t. handleFitness e p body st = (st, [Reply p (Text t)])"
  by (auto simp: stepRejects_def handleFitness_def Let_def split: option.splits)

lemma meals_rejects:
  "stepRejects B_Meals (getState st p) body \<Longrightarrow>
   \<exists>t. handleMeals e p body st = (st, [Reply p (Text t)])"
  by (auto simp: stepRejects_def handleMeals_def Let_def split: option.splits)

lemma cycle_rejects:
  "stepRejects B_Cycle (getState st p) body \<Longrightarrow>
   \<exists>t. handleCycle e p body st = (st, [Reply p (Text t)])"
  by (auto simp: stepRejects_def handleCycle_def Let_def split: option.splits cycle_step.splits)

lemma dispatch_rejects:
  assumes "stepRejects b (getState st p) body"
  shows "\<exists>t. dispatch b e p user body st = (st, [Reply p (Text t)])"
proof (cases b)
  case B_Onboarding
  then show ?thesis using assms onboarding_rejects [of st p body e] by (simp add: dispatch_def)
next
  case B_Assessment
  then show ?thesis using assms assessment_rejects [of st p body e] by (simp add: dispatch_def)
next
  case B_Fitness
  then show ?thesis using assms fitness_rejects [of st p body e] by (simp add: dispatch_def)
next
  case B_Meals
  then show ?thesis using assms meals_rejects [of st p body e] by (simp add: dispatch_def)
next
  case B_Cycle
  then show ?thesis using assms cycle_rejects [of st p body e] by (simp add: dispatch_def)
qed (use assms in \<open>simp_all add: stepRejects_def\<close>)

text \<open>
  Claim C3.  When the branch that handles a message is a flow (onboarding, assessment,
  fitness, meals or cycle) and the step the session is at refuses the input, the
  router returns the store as it was, sends one text and does nothing else: no state
  is changed and nothing is persisted.
\<close>

theorem rejected_input_changes_nothing:
  assumes "messageBody m \<noteq> []" and "getUserProfile_result e = Returns user"
    and "stepRejects (route user (getState st (msg_from m)) (messageBody m))
           (getState st (msg_from m)) (messageBody m)"
  shows "\<exists>t. handleMessage e m st = (st, [Reply (msg_from m) (Text t)])"
  using assms dispatch_rejects by (simp add: handleMessage_dispatch)


text \<open>Onboarding at the age question, answered \<open>200\<close>: the store is unchanged and
  the only action is the request for a valid age.\<close>

theorem rejected_input_changes_nothing_witness:
  "messageBody (text_from ''u'' ''200'') \<noteq> []
   \<and> getUserProfile_result (env_ok None) = Returns None
   \<and> onboarding (getState atAgeStep ''u'')
       = Some \<lparr>ob_step = OB_age,
               ob_data = \<lparr>name = Some ''Amina'', age = None, sex = None, height = None,
                          weight = None, medical_history = None\<rparr>\<rparr>
   \<and> stepRejects (route None (getState atAgeStep (msg_from (text_from ''u'' ''200'')))
                      (messageBody (text_from ''u'' ''200'')))
         (getState atAgeStep (msg_from (text_from ''u'' ''200''))) (messageBody (text_from ''u'' ''200''))
   \<and> (\<exists>t. handleMessage (env_ok None) (text_from ''u'' ''200'') atAgeStep
             = (atAgeStep, [Reply (msg_from (text_from ''u'' ''200'')) (Text t)]))
   \<and> snd (handleMessage (env_ok None) (text_from ''u'' ''200'') atAgeStep)
       = [Reply ''u'' (Text ''Please enter a valid age (0-150).'')]"
proof -
  have b: "messageBody (text_from ''u'' ''200'') \<noteq> []"
    by code_simp
  have u: "getUserProfile_result (env_ok None) = Returns None"
    by (simp add: env_ok_def)
  have o: "onboarding (getState atAgeStep ''u'')
       = Some \<lparr>ob_step = OB_age,
               ob_data = \<lparr>name = Some ''Amina'', age = None, sex = None, height = None,
                          weight = None, medical_history = None\<rparr>\<rparr>"
    by code_simp
  have r: "stepRejects (route None (getState atAgeStep (msg_from (text_from ''u'' ''200'')))
                      (messageBody (text_from ''u'' ''200'')))
         (getState atAgeStep (msg_from (text_from ''u'' ''200''))) (messageBody (text_from ''u'' ''200''))"
    by code_simp
  have a: "snd (handleMessage (env_ok None) (text_from ''u'' ''200'') atAgeStep)
       = [Reply ''u'' (Text ''Please enter a valid age (0-150).'')]"
    by code_simp
  show ?thesis
    using rejected_input_changes_nothing [OF b u r] b u o r a
    by (intro conjI)
qed

subsection \<open>What the validators enforce\<close>













subsection \<open>Session expiry\<close>

lemma reachable_unset:
  assumes "reachable st" "states st p = Some s"
  shows "lastActivity s = None"
  using store_okD [OF reachable_ok [OF assms(1)], of p] assms(2)
  by (simp add: getState_def session_ok_def)

text \<open>
  Claim C8.  No step of the process assigns \<open>lastActivity\<close>: in every reachable
  store it is unset in every session, and so the hourly sweep removes nothing,
  whatever the time.
\<close>

theorem lastActivity_never_assigned:
  assumes "reachable st"
  shows "(\<forall>p s. states st p = Some s \<longrightarrow> lastActivity s = None) \<and> sweep t st = st"
  using assms reachable_unset sweep_ok [OF reachable_ok] by blast

text \<open>The session of a first message is still there two days later.\<close>

theorem lastActivity_never_assigned_witness:
  "reachable greeted
   \<and> states greeted ''u'' = Some (emptySession\<lparr>awaitingConsent := True\<rparr>)
   \<and> lastActivity (emptySession\<lparr>awaitingConsent := True\<rparr>) = None
   \<and> sweep (now (env_ok None) + 48 * 60 * 60 * 1000) greeted = greeted"
proof -
  have r: "reachable greeted"
    unfolding greeted_def by (intro reachable.message reachable.initial)
  have s: "states greeted ''u'' = Some (emptySession\<lparr>awaitingConsent := True\<rparr>)"
    by code_simp
  from lastActivity_never_assigned [OF r, of "now (env_ok None) + 48 * 60 * 60 * 1000"] s
  have "lastActivity (emptySession\<lparr>awaitingConsent := True\<rparr>) = None"
    and "sweep (now (env_ok None) + 48 * 60 * 60 * 1000) greeted = greeted"
    by blast+
  with r s show ?thesis
    by (intro conjI)
qed

subsection \<open>Completion of the fitness and meals flows\<close>

lemma reachable_run: "reachable st \<Longrightarrow> reachable (fst (run ms st))"
proof (induction ms arbitrary: st)
  case Nil
  then show ?case by simp
next
  case (Cons em ms)
  obtain e m where em: "em = (e, m)"
    by (cases em)
  have "reachable (fst (handleMessage e m st))"
    using Cons.prems by (rule reachable.message)
  then have "reachable (fst (run ms (fst (handleMessage e m st))))"
    by (rule Cons.IH)
  then show ?case
    by (simp add: em split_beta)
qed

lemma fitness_final_step:
  assumes "session_ok (getState st p)" "fitness (getState st p) = Some f" "fi_step f = FI_equipment"
  shows "\<exists>plan. generateFitnessPlan ((fi_data f)\<lparr>equipment := Some body\<rparr>) = Some plan
           \<and> handleFitness e p body st
               = (setState p (\<lambda>s. s\<lparr>fitness := None\<rparr>) st,
                  Reply p (M_YourFitnessPlan plan)
                  # Persist (SaveFitnessPlan p ((fi_data f)\<lparr>equipment := Some body\<rparr>)) (db_write_ok e)
                  # (if db_write_ok e then [] else [Reply p (M_HeresYourFitnessPlan plan)]))"
proof -
  from assms obtain g where g: "goals (fi_data f) = Some g"
    by (auto simp: session_ok_def)
  then obtain plan where
    plan: "generateFitnessPlan ((fi_data f)\<lparr>equipment := Some body\<rparr>) = Some plan"
    by (simp add: generateFitnessPlan_def)
  show ?thesis
    using assms(2,3) plan by (simp add: handleFitness_def Let_def)
qed

lemma meals_final_step:
  assumes "session_ok (getState st p)" "meals (getState st p) = Some f" "me_step f = ME_frequency"
    "isThreeToSix body"
  shows "\<exists>plan. generateMealPlan ((me_data f)\<lparr>meal_frequency := Some body\<rparr>) = Some plan
           \<and> handleMeals e p body st
               = (setState p (\<lambda>s. s\<lparr>meals := None\<rparr>) st,
                  Reply p (M_YourMealPlan plan)
                  # Persist (SaveMealPlan p ((me_data f)\<lparr>meal_frequency := Some body\<rparr>)) (db_write_ok e)
                  # (if db_write_ok e then [] else [Reply p (M_HeresYourMealPlan plan)]))"
proof -
  from assms obtain g where g: "preferences (me_data f) = Some g"
    by (auto simp: session_ok_def)
  then obtain plan where
    plan: "generateMealPlan ((me_data f)\<lparr>meal_frequency := Some body\<rparr>) = Some plan"
    by (simp add: generateMealPlan_def)
  show ?thesis
    using assms(2,3,4) plan by (simp add: handleMeals_def Let_def)
qed

text \<open>
  Claim C9.  In a reachable store, the answer to the last fitness question, and an
  accepted answer to the last meals question, make the router send the generated
  plan first, then try to store it, and clear the flow; when the write fails the plan
  is sent once more with a note, and the flow is cleared all the same.
\<close>

theorem final_step_delivers_plan_and_clears:
  assumes "reachable st" and "messageBody m \<noteq> []" and "getUserProfile_result e = Returns user"
  shows
    "(route user (getState st (msg_from m)) (messageBody m) = B_Fitness
      \<and> fitness (getState st (msg_from m)) = Some f \<and> fi_step f = FI_equipment \<longrightarrow>
        (\<exists>plan. generateFitnessPlan ((fi_data f)\<lparr>equipment := Some (messageBody m)\<rparr>) = Some plan
           \<and> handleMessage e m st
               = (setState (msg_from m) (\<lambda>s. s\<lparr>fitness := None\<rparr>) st,
                  Reply (msg_from m) (M_YourFitnessPlan plan)
                  # Persist (SaveFitnessPlan (msg_from m)
                             ((fi_data f)\<lparr>equipment := Some (messageBody m)\<rparr>)) (db_write_ok e)
                  # (if db_write_ok e then [] else [Reply (msg_from m) (M_HeresYourFitnessPlan plan)])))
        \<and> fitness (getState (fst (handleMessage e m st)) (msg_from m)) = None)
     \<and> (route user (getState st (msg_from m)) (messageBody m) = B_Meals
      \<and> meals (getState st (msg_from m)) = Some g \<and> me_step g = ME_frequency
      \<and> isThreeToSix (messageBody m) \<longrightarrow>
        (\<exists>plan. generateMealPlan ((me_data g)\<lparr>meal_frequency := Some (messageBody m)\<rparr>) = Some plan
           \<and> handleMessage e m st
               = (setState (msg_from m) (\<lambda>s. s\<lparr>meals := None\<rparr>) st,
                  Reply (msg_from m) (M_YourMealPlan plan)
                  # Persist (SaveMealPlan (msg_from m)
                             ((me_data g)\<lparr>meal_frequency := Some (messageBody m)\<rparr>)) (db_write_ok e)
                  # (if db_write_ok e then [] else [Reply (msg_from m) (M_HeresYourMealPlan plan)])))
        \<and> meals (getState (fst (handleMessage e m st)) (msg_from m)) = None)"
proof -
  have ok: "session_ok (getState st (msg_from m))"
    using assms(1) by (intro store_okD reachable_ok)
  note d = handleMessage_dispatch [OF assms(2,3), of st]
  have "\<exists>plan. generateFitnessPlan ((fi_data f)\<lparr>equipment := Some (messageBody m)\<rparr>) = Some plan
           \<and> handleMessage e m st
               = (setState (msg_from m) (\<lambda>s. s\<lparr>fitness := None\<rparr>) st,
                  Reply (msg_from m) (M_YourFitnessPlan plan)
                  # Persist (SaveFitnessPlan (msg_from m)
                             ((fi_data f)\<lparr>equipment := Some (messageBody m)\<rparr>)) (db_write_ok e)
                  # (if db_write_ok e then [] else [Reply (msg_from m) (M_HeresYourFitnessPlan plan)]))"
    and "fitness (getState (fst (handleMessage e m st)) (msg_from m)) = None"
    if "route user (getState st (msg_from m)) (messageBody m) = B_Fitness"
      "fitness (getState st (msg_from m)) = Some f" "fi_step f = FI_equipment"
    using fitness_final_step [OF ok that(2,3), of "messageBody m" e] d that(1)
    by (auto simp: dispatch_def getState_setState)
  moreover
  have "\<exists>plan. generateMealPlan ((me_data g)\<lparr>meal_frequency := Some (messageBody m)\<rparr>) = Some plan
           \<and> handleMessage e m st
               = (setState (msg_from m) (\<lambda>s. s\<lparr>meals := None\<rparr>) st,
                  Reply (msg_from m) (M_YourMealPlan plan)
                  # Persist (SaveMealPlan (msg_from m)
                             ((me_data g)\<lparr>meal_frequency := Some (messageBody m)\<rparr>)) (db_write_ok e)
                  # (if db_write_ok e then [] else [Reply (msg_from m) (M_HeresYourMealPlan plan)]))"
    and "meals (getState (fst (handleMessage e m st)) (msg_from m)) = None"
    if "route user (getState st (msg_from m)) (messageBody m) = B_Meals"
      "meals (getState st (msg_from m)) = Some g" "me_step g = ME_frequency"
      "isThreeToSix (messageBody m)"
    using meals_final_step [OF ok that(2,3,4), of e] d that(1)
    by (auto simp: dispatch_def getState_setState)
  ultimately show ?thesis
    by blast
qed


text \<open>The last answers of both flows with a record store that refuses the write.\<close>

theorem final_step_delivers_plan_and_clears_witness:
  "reachable atEquipmentStep
   \<and> messageBody (text_from ''u'' ''dumbbells'') \<noteq> []
   \<and> getUserProfile_result ((env_ok (Some amina))\<lparr>db_write_ok := False\<rparr>) = Returns (Some amina)
   \<and> route (Some amina) (getState atEquipmentStep (msg_from (text_from ''u'' ''dumbbells'')))
         (messageBody (text_from ''u'' ''dumbbells'')) = B_Fitness
   \<and> fitness (getState atEquipmentStep (msg_from (text_from ''u'' ''dumbbells'')))
       = Some \<lparr>fi_step = FI_equipment,
               fi_data = \<lparr>goals = Some ''weight loss'', fit_frequency = Some ''3'',
                          equipment = None\<rparr>\<rparr>
   \<and> fitness (getState (fst (handleMessage ((env_ok (Some amina))\<lparr>db_write_ok := False\<rparr>)
                                (text_from ''u'' ''dumbbells'') atEquipmentStep))
                (msg_from (text_from ''u'' ''dumbbells''))) = None
   \<and> snd (handleMessage ((env_ok (Some amina))\<lparr>db_write_ok := False\<rparr>)
            (text_from ''u'' ''dumbbells'') atEquipmentStep)
       = [Reply ''u'' (M_YourFitnessPlan
                        \<lparr>fp_goals = ''weight loss'', fp_frequency = Some ''3'', fp_kind = WeightLoss\<rparr>),
          Persist (SaveFitnessPlan ''u''
                    \<lparr>goals = Some ''weight loss'', fit_frequency = Some ''3'',
                     equipment = Some ''dumbbells''\<rparr>) False,
          Reply ''u'' (M_HeresYourFitnessPlan
                        \<lparr>fp_goals = ''weight loss'', fp_frequency = Some ''3'', fp_kind = WeightLoss\<rparr>)]
   \<and> snd (handleMessage ((env_ok (Some amina))\<lparr>db_write_ok := False\<rparr>)
            (text_from ''u'' ''4'') atMealsFrequencyStep)
       = [Reply ''u'' (M_YourMealPlan
                        \<lparr>mp_preferences = ''vegan'', mp_frequency = Some ''4'', mp_menu = Standard,
                         mp_snacks = True\<rparr>),
          Persist (SaveMealPlan ''u''
                    \<lparr>preferences = Some ''vegan'', allergies = Some ''none'',
                     meal_frequency = Some ''4''\<rparr>) False,
          Reply ''u'' (M_HeresYourMealPlan
                        \<lparr>mp_preferences = ''vegan'', mp_frequency = Some ''4'', mp_menu = Standard,
                         mp_snacks = True\<rparr>)]
   \<and> meals (getState (fst (handleMessage ((env_ok (Some amina))\<lparr>db_write_ok := False\<rparr>)
                              (text_from ''u'' ''4'') atMealsFrequencyStep)) ''u'') = None"
proof -
  let ?e = "(env_ok (Some amina))\<lparr>db_write_ok := False\<rparr>"
  let ?m = "text_from ''u'' ''dumbbells''"
  let ?f = "\<lparr>fi_step = FI_equipment,
               fi_data = \<lparr>goals = Some ''weight loss'', fit_frequency = Some ''3'',
                          equipment = None\<rparr>\<rparr>"
  have re: "reachable atEquipmentStep"
    unfolding atEquipmentStep_def by (intro reachable_run reachable.initial)
  have b: "messageBody ?m \<noteq> []"
    by code_simp
  have u: "getUserProfile_result ?e = Returns (Some amina)"
    by (simp add: env_ok_def)
  have r: "route (Some amina) (getState atEquipmentStep (msg_from ?m)) (messageBody ?m) = B_Fitness"
    by code_simp
  have f: "fitness (getState atEquipmentStep (msg_from ?m)) = Some ?f"
    by code_simp
  have s: "fi_step ?f = FI_equipment"
    by simp
  from final_step_delivers_plan_and_clears [OF re b u, of ?f] r f s
  have c: "fitness (getState (fst (handleMessage ?e ?m atEquipmentStep)) (msg_from ?m)) = None"
    by blast
  have a1: "snd (handleMessage ?e ?m atEquipmentStep)
       = [Reply ''u'' (M_YourFitnessPlan
                        \<lparr>fp_goals = ''weight loss'', fp_frequency = Some ''3'', fp_kind = WeightLoss\<rparr>),
          Persist (SaveFitnessPlan ''u''
                    \<lparr>goals = Some ''weight loss'', fit_frequency = Some ''3'',
                     equipment = Some ''dumbbells''\<rparr>) False,
          Reply ''u'' (M_HeresYourFitnessPlan
                        \<lparr>fp_goals = ''weight loss'', fp_frequency = Some ''3'', fp_kind = WeightLoss\<rparr>)]"
    by code_simp
  have a2: "snd (handleMessage ?e (text_from ''u'' ''4'') atMealsFrequencyStep)
       = [Reply ''u'' (M_YourMealPlan
                        \<lparr>mp_preferences = ''vegan'', mp_frequency = Some ''4'', mp_menu = Standard,
                         mp_snacks = True\<rparr>),
          Persist (SaveMealPlan ''u''
                    \<lparr>preferences = Some ''vegan'', allergies = Some ''none'',
                     meal_frequency = Some ''4''\<rparr>) False,
          Reply ''u'' (M_HeresYourMealPlan
                        \<lparr>mp_preferences = ''vegan'', mp_frequency = Some ''4'', mp_menu = Standard,
                         mp_snacks = True\<rparr>)]"
    by code_simp
  have c2: "meals (getState (fst (handleMessage ?e (text_from ''u'' ''4'') atMealsFrequencyStep)) ''u'')
          = None"
    by code_simp
  show ?thesis
    by (intro conjI re b u r f c a1 a2 c2)
qed

subsection \<open>The diagnose command\<close>

lemma generateDiagnosisResponse_ok:
  assumes "cohere_getUserProfile e = Returns u" "cohere_getLatestHealthAssessment e = Returns a"
    "cohere_saveDiagnosis_ok e"
  shows "generateDiagnosisResponse e p symptoms
           = (generateAliyaResponse e Ctx_diagnosis,
              [Persist (SaveDiagnosis p symptoms (generateAliyaResponse e Ctx_diagnosis)) True])"
  using assms by (simp add: generateDiagnosisResponse_def Let_def)

text \<open>
  Claim C10.  A \<open>/diagnose\<close> command with an argument, when the generation module's
  reads and its own write succeed, writes the diagnosis twice for the one message:
  once inside \<open>generateDiagnosisResponse\<close> and once more from the router after the
  reply, with the same symptoms and the same text.
\<close>

theorem diagnosis_persisted_twice:
  assumes "messageBody m \<noteq> []" and "getUserProfile_result e = Returns user"
    and "route user (getState st (msg_from m)) (messageBody m) = B_Command"
    and "splitSpace (messageBody m) = c # args" and "toLowerCase c = ''/diagnose''"
    and "args \<noteq> []"
    and "cohere_getUserProfile e = Returns u" and "cohere_getLatestHealthAssessment e = Returns a"
    and "cohere_saveDiagnosis_ok e"
  shows "handleMessage e m st
           = (st,
              [Persist (SaveDiagnosis (msg_from m) (joinSpace args)
                          (generateAliyaResponse e Ctx_diagnosis)) True,
               Reply (msg_from m) (Text (generateAliyaResponse e Ctx_diagnosis)),
               Persist (SaveDiagnosis (msg_from m) (joinSpace args)
                          (generateAliyaResponse e Ctx_diagnosis)) (db_write_ok e)]
              @ (if db_write_ok e then []
                 else [Reply (msg_from m)
                         (Text ''I couldn't analyze symptoms. Please consult a doctor if concerned.'')]))"
proof -
  have "handleMessage e m st = handleCommand e (msg_from m) user (messageBody m) st"
    using handleMessage_dispatch [OF assms(1,2), of st] assms(3) by (simp add: dispatch_def)
  also have "\<dots> = handleDiagnose e (msg_from m) args st"
    using assms(4,5) by (simp add: handleCommand_def Let_def)
  finally show ?thesis
    using assms(6) generateDiagnosisResponse_ok [OF assms(7,8,9), of "msg_from m" "joinSpace args"]
    by (simp add: handleDiagnose_def Let_def)
qed

text \<open>The command \<open>/diagnose sore throat\<close> from a user with a profile.\<close>

theorem diagnosis_persisted_twice_witness:
  "messageBody (text_from ''u'' ''/diagnose sore throat'') \<noteq> []
   \<and> getUserProfile_result (env_ok (Some amina)) = Returns (Some amina)
   \<and> route (Some amina) (getState emptyStore (msg_from (text_from ''u'' ''/diagnose sore throat'')))
         (messageBody (text_from ''u'' ''/diagnose sore throat'')) = B_Command
   \<and> splitSpace (messageBody (text_from ''u'' ''/diagnose sore throat''))
       = ''/diagnose'' # [''sore'', ''throat'']
   \<and> toLowerCase ''/diagnose'' = ''/diagnose''
   \<and> joinSpace [''sore'', ''throat''] = ''sore throat''
   \<and> snd (handleMessage (env_ok (Some amina)) (text_from ''u'' ''/diagnose sore throat'') emptyStore)
       = [Persist (SaveDiagnosis ''u'' ''sore throat'' (getFallbackMessage Ctx_diagnosis)) True,
          Reply ''u'' (Text (getFallbackMessage Ctx_diagnosis)),
          Persist (SaveDiagnosis ''u'' ''sore throat'' (getFallbackMessage Ctx_diagnosis)) True]"
proof -
  let ?m = "text_from ''u'' ''/diagnose sore throat''"
  let ?e = "env_ok (Some amina)"
  have b: "messageBody ?m \<noteq> []"
    by code_simp
  have u: "getUserProfile_result ?e = Returns (Some amina)"
    by (simp add: env_ok_def)
  have r: "route (Some amina) (getState emptyStore (msg_from ?m)) (messageBody ?m) = B_Command"
    by code_simp
  have sp: "splitSpace (messageBody ?m) = ''/diagnose'' # [''sore'', ''throat'']"
    by code_simp
  have lc: "toLowerCase ''/diagnose'' = ''/diagnose''"
    by code_simp
  have j: "joinSpace [''sore'', ''throat''] = ''sore throat''"
    by simp
  have cu: "cohere_getUserProfile ?e = Returns (Some amina)"
    "cohere_getLatestHealthAssessment ?e = Returns False" "cohere_saveDiagnosis_ok ?e"
    by (simp_all add: env_ok_def)
  have g: "generateAliyaResponse ?e Ctx_diagnosis = getFallbackMessage Ctx_diagnosis"
    by (simp add: generateAliyaResponse_def env_ok_def)
  have w: "db_write_ok ?e" "msg_from ?m = ''u''"
    by (simp_all add: env_ok_def text_from_def)
  from diagnosis_persisted_twice [OF b u r sp lc _ cu]
  have "snd (handleMessage ?e ?m emptyStore)
       = [Persist (SaveDiagnosis ''u'' ''sore throat'' (getFallbackMessage Ctx_diagnosis)) True,
          Reply ''u'' (Text (getFallbackMessage Ctx_diagnosis)),
          Persist (SaveDiagnosis ''u'' ''sore throat'' (getFallbackMessage Ctx_diagnosis)) True]"
    by (simp add: g w j)
  then show ?thesis
    by (intro conjI b u r sp lc j)
qed

end
